theory Spec2Isabelle
  imports Complex_Main
begin

section \<open>JavaScript numbers and the Math functions the calculator uses\<close>

text \<open>
  The calculator (\<^verbatim>\<open>src/calculator.js\<close>) computes with JavaScript numbers. The model
  takes a finite number to be a \<^typ>\<open>real\<close> and its arithmetic to be exact; the
  rounding error of IEEE doubles and the sign of zero are outside the model. The only
  place where the code can leave the finite numbers is the division of line 211/212
  (a grid extent of 0), which \<open>js_div\<close> below models with the values JavaScript gives.

  \<^verbatim>\<open>Math.round(x)\<close> is the integer nearest to \<open>x\<close>, a tie going up: \<open>\<lfloor>x + 1/2\<rfloor>\<close>, which
  is HOL's \<^const>\<open>round\<close>. \<^verbatim>\<open>Math.floor\<close> is \<^const>\<open>floor\<close>. \<^verbatim>\<open>a % b\<close> is the
  remainder of the division truncated towards zero (the sign of the dividend).
\<close>

definition Math_round :: "real \<Rightarrow> real" where
  "Math_round x = of_int (round x)"

definition Math_floor :: "real \<Rightarrow> real" where
  "Math_floor x = of_int \<lfloor>x\<rfloor>"

definition js_trunc :: "real \<Rightarrow> int" where
  "js_trunc q = (if 0 \<le> q then \<lfloor>q\<rfloor> else \<lceil>q\<rceil>)"

definition js_rem :: "real \<Rightarrow> real \<Rightarrow> real" where
  \<comment> \<open>\<^verbatim>\<open>a % b\<close> for a finite \<open>a\<close> and a finite \<open>b\<close> other than 0 (the code only has \<open>% 3\<close>)\<close>
  "js_rem a b = a - b * of_int (js_trunc (a / b))"

definition Math_hypot :: "real \<Rightarrow> real \<Rightarrow> real" where
  "Math_hypot dx dy = sqrt (dx\<^sup>2 + dy\<^sup>2)"

section \<open>Views, shape and the spacing formula\<close>

record view =
  H :: real
  V :: real

record shape =
  TOP :: view
  FRONT :: view
  RIGHT :: view

text \<open>
  \<^verbatim>\<open>getSpacing\<close> returns \<^verbatim>\<open>{ vert, hori }\<close>, each an array of three numbers (the even
  split) or of two (margin, gap).
\<close>

record spacing_arrays =
  vert :: "real list"
  hori :: "real list"

definition getSpacing :: "real \<Rightarrow> real \<Rightarrow> shape \<Rightarrow> spacing_arrays" where
  "getSpacing areaH areaV sh =
    (let vertRaw = areaV - (V (FRONT sh) + V (TOP sh));
         vertRounded = Math_round vertRaw;
         vert' =
           (if js_rem vertRounded 3 = 0
            then [vertRounded / 3, vertRounded / 3, vertRounded / 3]
            else (let v1 = min 3 (Math_floor (vertRounded / 2));
                      v0 = max 0 ((vertRounded - v1) / 2)
                  in [v0, v1]));
         horiRaw = areaH - (H (FRONT sh) + H (RIGHT sh));
         horiRounded = Math_round horiRaw;
         hori' =
           (if js_rem horiRounded 3 = 0
            then [horiRounded / 3, horiRounded / 3, horiRounded / 3]
            else (let h1 = min 3 (Math_floor (horiRounded / 2));
                      h0 = max 0 ((horiRounded - h1) / 2)
                  in [h0, h1]))
     in \<lparr> vert = vert', hori = hori' \<rparr>)"

section \<open>The page: what the script reads and writes\<close>

text \<open>
  The script reads five input fields, the size of the \<^verbatim>\<open>.svg-wrap\<close> box and the
  \<^verbatim>\<open>display\<close> style of the results section; it writes that style, the result rows,
  the size of the \<^verbatim>\<open>svg\<close> element and the children of \<^verbatim>\<open>#drawing-content\<close>. The
  model passes this state explicitly.

  An input field is held as what \<^verbatim>\<open>parseFloat\<close> returns for its text: \<open>Some x\<close> for a
  finite number, \<open>None\<close> for \<^verbatim>\<open>NaN\<close> (an empty or non-numeric field); a text that
  parses to an infinity is outside the model. \<^verbatim>\<open>Number.toFixed\<close> is a
  function of the JavaScript library; the functions that format a number take it as the
  parameter \<open>toFixed\<close> (digits first).
\<close>

record text_attrs =
  tx :: "real option"
  ty :: "real option"
  text_anchor :: "string option"
  tcls :: string
  textContent :: string

text \<open>
  An SVG element appended to \<^verbatim>\<open>#drawing-content\<close>: a \<^verbatim>\<open>rect\<close> (x, y, width, height,
  class), a \<^verbatim>\<open>line\<close> (x1, y1, x2, y2, class, and the pair marker-end, marker-start when
  the line has them) or a \<^verbatim>\<open>text\<close> (every text has \<^verbatim>\<open>dominant-baseline: middle\<close>, which
  the model leaves out).
\<close>

datatype elem =
  Rect real real real real string
| Line real real real real string "(string \<times> string) option"
| Text text_attrs

record dom =
  width_value :: "real option"
  height_value :: "real option"
  depth_value :: "real option"
  areaH_value :: "real option"
  areaV_value :: "real option"
  results_display :: string
  result_rows :: "(string \<times> string) list"
  wrap_clientWidth :: real
  wrap_clientHeight :: real
  svg_width :: real
  svg_height :: real
  drawing_content :: "elem list"

definition TICK :: real where
  "TICK = 5"

definition MIN_LBL :: real where
  "MIN_LBL = 14"

subsection \<open>readInputs\<close>

definition js_or :: "real option \<Rightarrow> real \<Rightarrow> real" where
  \<comment> \<open>\<^verbatim>\<open>parseFloat(...) || d\<close>: \<^verbatim>\<open>NaN\<close> and 0 are falsy\<close>
  "js_or v d = (case v of None \<Rightarrow> d | Some x \<Rightarrow> if x = 0 then d else x)"

record inputs =
  W :: real
  H' :: real
  D :: real
  aH :: real
  aV :: real
  shape_of :: shape

definition readInputs :: "dom \<Rightarrow> inputs" where
  "readInputs d =
    (let w = js_or (width_value d) 6;
         h = js_or (height_value d) 4;
         dp = js_or (depth_value d) 5;
         ah = js_or (areaH_value d) 16;
         av = js_or (areaV_value d) 16;
         sh = \<lparr> TOP = \<lparr> H = w, V = dp \<rparr>,
                FRONT = \<lparr> H = w, V = h \<rparr>,
                RIGHT = \<lparr> H = dp, V = h \<rparr> \<rparr>
     in \<lparr> W = w, H' = h, D = dp, aH = ah, aV = av, shape_of = sh \<rparr>)"

subsection \<open>dimArrow\<close>

record opts =
  labelOffset :: "real option"
  labelSide :: "string option"

definition no_opts :: opts where
  \<comment> \<open>\<^verbatim>\<open>opts = opts || {}\<close>\<close>
  "no_opts = \<lparr> labelOffset = None, labelSide = None \<rparr>"

definition svgLine :: "real \<Rightarrow> real \<Rightarrow> real \<Rightarrow> real \<Rightarrow> string \<Rightarrow> elem" where
  "svgLine x1 y1 x2 y2 cls = Line x1 y1 x2 y2 cls None"

text \<open>
  \<^verbatim>\<open>dimArrow\<close> appends elements to the drawing; the model returns the elements it
  appends, in order (none when it returns at \<^verbatim>\<open>len < 1\<close>).
\<close>

definition dimArrow ::
  "real \<Rightarrow> real \<Rightarrow> real \<Rightarrow> real \<Rightarrow> string \<Rightarrow> string \<Rightarrow> opts \<Rightarrow> elem list" where
  "dimArrow x1 y1 x2 y2 label type os =
    (let isSpace = (type = ''space'');
         lineCls = (if isSpace then ''dim-space'' else ''dim-shape'');
         txtCls = (if isSpace then ''dim-space-text'' else ''dim-shape-text'');
         mEnd = (if isSpace then ''url(#ah-red-e)'' else ''url(#ah-blue-e)'');
         mStart = (if isSpace then ''url(#ah-red-s)'' else ''url(#ah-blue-s)'');
         dx = x2 - x1;
         dy = y2 - y1;
         len = Math_hypot dx dy
     in if len < 1 then []
        else
         (let px = - dy / len;
              py = dx / len;
              mx = (x1 + x2) / 2;
              my = (y1 + y2) / 2;
              isH = (\<bar>dy\<bar> < 0.5);
              isV = (\<bar>dx\<bar> < 0.5);
              short = (len < MIN_LBL);
              t = \<lparr> tx = None, ty = None, text_anchor = None, tcls = txtCls,
                    textContent = label \<rparr>;
              t' =
                (if isH then
                   (let offset = (case labelOffset os of Some off \<Rightarrow> off | None \<Rightarrow> - 8);
                        t1 = t\<lparr> tx := Some mx, ty := Some (my + offset),
                                text_anchor := Some ''middle'' \<rparr>
                    in if short
                       then t1\<lparr> tx := Some (max x1 x2 + 5), ty := Some my,
                                 text_anchor := Some ''start'' \<rparr>
                       else t1)
                 else if isV then
                   (let side = (if labelSide os = Some ''right'' then 1 else - 1);
                        offset = (case labelOffset os of Some off \<Rightarrow> off | None \<Rightarrow> 12);
                        t1 = t\<lparr> tx := Some (mx + side * offset), ty := Some my,
                                text_anchor :=
                                  Some (if labelSide os = Some ''right'' then ''start''
                                        else ''end'') \<rparr>
                    in if short then t1\<lparr> ty := Some (my - 10) \<rparr> else t1)
                 else t)
          in [Line x1 y1 x2 y2 lineCls (Some (mEnd, mStart)),
              svgLine (x1 + px * TICK) (y1 + py * TICK) (x1 - px * TICK) (y1 - py * TICK) lineCls,
              svgLine (x2 + px * TICK) (y2 + py * TICK) (x2 - px * TICK) (y2 - py * TICK) lineCls,
              Text t']))"

subsection \<open>render: grid extent and scale (lines 191 to 213)\<close>

record sp =
  v0 :: real
  v1 :: real
  h0 :: real
  h1 :: real

definition fmt :: "(nat \<Rightarrow> real \<Rightarrow> string) \<Rightarrow> bool \<Rightarrow> real \<Rightarrow> string" where
  "fmt toFixed calculated v = (if calculated then toFixed 1 v else ''?'')"

definition fW :: "shape \<Rightarrow> real" where "fW sh = H (FRONT sh)"
definition fH :: "shape \<Rightarrow> real" where "fH sh = V (FRONT sh)"
definition dW :: "shape \<Rightarrow> real" where "dW sh = H (RIGHT sh)"
definition dH :: "shape \<Rightarrow> real" where "dH sh = V (TOP sh)"

definition totalUnitsH :: "shape \<Rightarrow> sp \<Rightarrow> real" where
  "totalUnitsH sh s = h0 s + fW sh + h1 s + dW sh + h0 s"

definition totalUnitsV :: "shape \<Rightarrow> sp \<Rightarrow> real" where
  "totalUnitsV sh s = v0 s + dH sh + v1 s + fH sh + v0 s"

definition PAD_L :: real where "PAD_L = 56"
definition PAD_R :: real where "PAD_R = 56"
definition PAD_T :: real where "PAD_T = 44"
definition PAD_B :: real where "PAD_B = 44"

definition availW :: "dom \<Rightarrow> real" where
  \<comment> \<open>\<^verbatim>\<open>Math.max((wrap.clientWidth || 600) - 2, 200)\<close>\<close>
  "availW d = max ((if wrap_clientWidth d = 0 then 600 else wrap_clientWidth d) - 2) 200"

definition availH :: "dom \<Rightarrow> real" where
  "availH d = max ((if wrap_clientHeight d = 0 then 500 else wrap_clientHeight d) - 2) 200"

text \<open>
  The two quotients of lines 211 and 212 divide by a grid extent, which is 0 for some
  inputs; JavaScript then gives an infinity (or \<^verbatim>\<open>NaN\<close> for 0/0), and \<^verbatim>\<open>Math.min\<close> and
  \<^verbatim>\<open>Math.max\<close> order the infinities and return \<^verbatim>\<open>NaN\<close> when an argument is \<^verbatim>\<open>NaN\<close>.
\<close>

datatype jsnum = Fin real | PosInf | NegInf | NaN

definition js_div :: "real \<Rightarrow> real \<Rightarrow> jsnum" where
  "js_div a b =
    (if b \<noteq> 0 then Fin (a / b)
     else if 0 < a then PosInf
     else if a < 0 then NegInf
     else NaN)"

fun Math_min :: "jsnum \<Rightarrow> jsnum \<Rightarrow> jsnum" where
  "Math_min NaN b = NaN"
| "Math_min a NaN = NaN"
| "Math_min NegInf b = NegInf"
| "Math_min a NegInf = NegInf"
| "Math_min PosInf b = b"
| "Math_min a PosInf = a"
| "Math_min (Fin a) (Fin b) = Fin (min a b)"

fun Math_max :: "jsnum \<Rightarrow> jsnum \<Rightarrow> jsnum" where
  "Math_max NaN b = NaN"
| "Math_max a NaN = NaN"
| "Math_max PosInf b = PosInf"
| "Math_max a PosInf = PosInf"
| "Math_max NegInf b = b"
| "Math_max a NegInf = a"
| "Math_max (Fin a) (Fin b) = Fin (max a b)"

definition scaleH :: "shape \<Rightarrow> sp \<Rightarrow> dom \<Rightarrow> jsnum" where
  "scaleH sh s d = js_div (availW d - PAD_L - PAD_R) (totalUnitsH sh s)"

definition scaleV :: "shape \<Rightarrow> sp \<Rightarrow> dom \<Rightarrow> jsnum" where
  "scaleV sh s d = js_div (availH d - PAD_T - PAD_B) (totalUnitsV sh s)"

definition render_S :: "shape \<Rightarrow> sp \<Rightarrow> dom \<Rightarrow> jsnum" where
  \<comment> \<open>\<^verbatim>\<open>Math.max(6, Math.min(scaleH, scaleV, 40))\<close>\<close>
  "render_S sh s d =
     Math_max (Fin 6) (Math_min (Math_min (scaleH sh s d) (scaleV sh s d)) (Fin 40))"

subsection \<open>render: pixel geometry (lines 215 to 255), for the scale \<open>S\<close>\<close>

definition daX :: real where "daX = PAD_L"
definition daY :: real where "daY = PAD_T"
definition daW :: "shape \<Rightarrow> sp \<Rightarrow> real \<Rightarrow> real" where "daW sh s S = totalUnitsH sh s * S"
definition daH :: "shape \<Rightarrow> sp \<Rightarrow> real \<Rightarrow> real" where "daH sh s S = totalUnitsV sh s * S"

definition pH0 :: "sp \<Rightarrow> real \<Rightarrow> real" where "pH0 s S = h0 s * S"
definition pH1 :: "sp \<Rightarrow> real \<Rightarrow> real" where "pH1 s S = h1 s * S"
definition pV0 :: "sp \<Rightarrow> real \<Rightarrow> real" where "pV0 s S = v0 s * S"
definition pV1 :: "sp \<Rightarrow> real \<Rightarrow> real" where "pV1 s S = v1 s * S"
definition pfW :: "shape \<Rightarrow> real \<Rightarrow> real" where "pfW sh S = fW sh * S"
definition pfH :: "shape \<Rightarrow> real \<Rightarrow> real" where "pfH sh S = fH sh * S"
definition pdW :: "shape \<Rightarrow> real \<Rightarrow> real" where "pdW sh S = dW sh * S"
definition pdH :: "shape \<Rightarrow> real \<Rightarrow> real" where "pdH sh S = dH sh * S"

text \<open>top-left box\<close>
definition tlX :: "sp \<Rightarrow> real \<Rightarrow> real" where "tlX s S = daX + pH0 s S"
definition tlY :: "sp \<Rightarrow> real \<Rightarrow> real" where "tlY s S = daY + pV0 s S"
definition tlW :: "shape \<Rightarrow> real \<Rightarrow> real" where "tlW sh S = pfW sh S"
definition tlH :: "shape \<Rightarrow> real \<Rightarrow> real" where "tlH sh S = pdH sh S"
text \<open>top-right box\<close>
definition trX :: "shape \<Rightarrow> sp \<Rightarrow> real \<Rightarrow> real" where
  "trX sh s S = daX + pH0 s S + pfW sh S + pH1 s S"
definition trY :: "sp \<Rightarrow> real \<Rightarrow> real" where "trY s S = daY + pV0 s S"
definition trW :: "shape \<Rightarrow> real \<Rightarrow> real" where "trW sh S = pdW sh S"
definition trH :: "shape \<Rightarrow> real \<Rightarrow> real" where "trH sh S = pdH sh S"
text \<open>bottom-left box\<close>
definition blX :: "sp \<Rightarrow> real \<Rightarrow> real" where "blX s S = daX + pH0 s S"
definition blY :: "shape \<Rightarrow> sp \<Rightarrow> real \<Rightarrow> real" where
  "blY sh s S = daY + pV0 s S + pdH sh S + pV1 s S"
definition blW :: "shape \<Rightarrow> real \<Rightarrow> real" where "blW sh S = pfW sh S"
definition blH :: "shape \<Rightarrow> real \<Rightarrow> real" where "blH sh S = pfH sh S"
text \<open>bottom-right box\<close>
definition brX :: "shape \<Rightarrow> sp \<Rightarrow> real \<Rightarrow> real" where
  "brX sh s S = daX + pH0 s S + pfW sh S + pH1 s S"
definition brY :: "shape \<Rightarrow> sp \<Rightarrow> real \<Rightarrow> real" where
  "brY sh s S = daY + pV0 s S + pdH sh S + pV1 s S"
definition brW :: "shape \<Rightarrow> real \<Rightarrow> real" where "brW sh S = pdW sh S"
definition brH :: "shape \<Rightarrow> real \<Rightarrow> real" where "brH sh S = pfH sh S"

subsection \<open>render: the elements drawn (lines 224 to 398)\<close>

text \<open>
  The two grid loops, \<^verbatim>\<open>for (let u = 0; u <= totalUnits; u++)\<close> with their \<^verbatim>\<open>break\<close>, from
  the counter \<open>u\<close> on.
\<close>

function render_gridV :: "shape \<Rightarrow> sp \<Rightarrow> real \<Rightarrow> nat \<Rightarrow> elem list" where
  "render_gridV sh s S u =
    (if real u \<le> totalUnitsH sh s then
       (let x = daX + real u * S
        in if x > daX + daW sh s S + 0.1 then []
           else svgLine x daY x (daY + daH sh s S) ''grid-line'' # render_gridV sh s S (Suc u))
     else [])"
  by pat_completeness auto
termination
proof (relation "measure (\<lambda>(sh, s, S, u). nat (\<lfloor>totalUnitsH sh s\<rfloor> + 1) - u)", goal_cases)
  case 1
  show ?case by simp
next
  case (2 sh s S u)
  from 2(1) have "int u \<le> \<lfloor>totalUnitsH sh s\<rfloor>"
    by (simp add: le_floor_iff)
  then show ?case by simp
qed

function render_gridH :: "shape \<Rightarrow> sp \<Rightarrow> real \<Rightarrow> nat \<Rightarrow> elem list" where
  "render_gridH sh s S u =
    (if real u \<le> totalUnitsV sh s then
       (let y = daY + real u * S
        in if y > daY + daH sh s S + 0.1 then []
           else svgLine daX y (daX + daW sh s S) y ''grid-line'' # render_gridH sh s S (Suc u))
     else [])"
  by pat_completeness auto
termination
proof (relation "measure (\<lambda>(sh, s, S, u). nat (\<lfloor>totalUnitsV sh s\<rfloor> + 1) - u)", goal_cases)
  case 1
  show ?case by simp
next
  case (2 sh s S u)
  from 2(1) have "int u \<le> \<lfloor>totalUnitsV sh s\<rfloor>"
    by (simp add: le_floor_iff)
  then show ?case by simp
qed

text \<open>The two loops are unfolded by hand, one step at a time.\<close>

declare render_gridV.simps [simp del]
declare render_gridH.simps [simp del]

definition render_boxes :: "shape \<Rightarrow> sp \<Rightarrow> real \<Rightarrow> elem list" where
  "render_boxes sh s S =
    [Rect (tlX s S) (tlY s S) (tlW sh S) (tlH sh S) ''box'',
     Rect (trX sh s S) (trY s S) (trW sh S) (trH sh S) ''box-accent'',
     Rect (blX s S) (blY sh s S) (blW sh S) (blH sh S) ''box'',
     Rect (brX sh s S) (brY sh s S) (brW sh S) (brH sh S) ''box'']"

definition view_label :: "real \<Rightarrow> real \<Rightarrow> string \<Rightarrow> elem" where
  "view_label x y t =
     Text \<lparr> tx = Some x, ty = Some y, text_anchor = Some ''middle'', tcls = ''view-label'',
            textContent = t \<rparr>"

definition render_view_labels :: "shape \<Rightarrow> sp \<Rightarrow> real \<Rightarrow> elem list" where
  "render_view_labels sh s S =
    [view_label (tlX s S + tlW sh S / 2) (tlY s S + tlH sh S / 2) ''TOP'',
     view_label (blX s S + blW sh S / 2) (blY sh s S + blH sh S / 2) ''FRONT'',
     view_label (brX sh s S + brW sh S / 2) (brY sh s S + brH sh S / 2) ''RIGHT'']"

definition OFF :: real where
  "OFF = 12"

definition extDot :: "real \<Rightarrow> real \<Rightarrow> real \<Rightarrow> real \<Rightarrow> elem" where
  "extDot x1 y1 x2 y2 = Line x1 y1 x2 y2 ''ext-dot'' None"

definition render_shape_arrows :: "(real \<Rightarrow> string) \<Rightarrow> shape \<Rightarrow> sp \<Rightarrow> real \<Rightarrow> elem list" where
  "render_shape_arrows f sh s S =
    (let tlTop = tlY s S - OFF;
         tlLeft = tlX s S - OFF;
         trTop = trY s S - OFF;
         trRight = trX sh s S + trW sh S + OFF;
         blBot = blY sh s S + blH sh S + OFF;
         blLeft = blX s S - OFF;
         brBot = brY sh s S + brH sh S + OFF;
         brRight = brX sh s S + brW sh S + OFF
     in
       dimArrow (tlX s S) tlTop (tlX s S + tlW sh S) tlTop (f (fW sh)) ''shape'' no_opts
     @ [extDot (tlX s S) tlTop (tlX s S) (tlY s S),
        extDot (tlX s S + tlW sh S) tlTop (tlX s S + tlW sh S) (tlY s S)]
     @ dimArrow tlLeft (tlY s S) tlLeft (tlY s S + tlH sh S) (f (dH sh)) ''shape''
         \<lparr> labelOffset = None, labelSide = Some ''left'' \<rparr>
     @ [extDot tlLeft (tlY s S) (tlX s S) (tlY s S),
        extDot tlLeft (tlY s S + tlH sh S) (tlX s S) (tlY s S + tlH sh S)]
     @ dimArrow (trX sh s S) trTop (trX sh s S + trW sh S) trTop (f (dW sh)) ''shape'' no_opts
     @ [extDot (trX sh s S) trTop (trX sh s S) (trY s S),
        extDot (trX sh s S + trW sh S) trTop (trX sh s S + trW sh S) (trY s S)]
     @ dimArrow trRight (trY s S) trRight (trY s S + trH sh S) (f (dH sh)) ''shape''
         \<lparr> labelOffset = None, labelSide = Some ''right'' \<rparr>
     @ [extDot trRight (trY s S) (trX sh s S + trW sh S) (trY s S),
        extDot trRight (trY s S + trH sh S) (trX sh s S + trW sh S) (trY s S + trH sh S)]
     @ dimArrow (blX s S) blBot (blX s S + blW sh S) blBot (f (fW sh)) ''shape''
         \<lparr> labelOffset = Some 10, labelSide = None \<rparr>
     @ [extDot (blX s S) blBot (blX s S) (blY sh s S + blH sh S),
        extDot (blX s S + blW sh S) blBot (blX s S + blW sh S) (blY sh s S + blH sh S)]
     @ dimArrow blLeft (blY sh s S) blLeft (blY sh s S + blH sh S) (f (fH sh)) ''shape''
         \<lparr> labelOffset = None, labelSide = Some ''left'' \<rparr>
     @ [extDot blLeft (blY sh s S) (blX s S) (blY sh s S),
        extDot blLeft (blY sh s S + blH sh S) (blX s S) (blY sh s S + blH sh S)]
     @ dimArrow (brX sh s S) brBot (brX sh s S + brW sh S) brBot (f (dW sh)) ''shape''
         \<lparr> labelOffset = Some 10, labelSide = None \<rparr>
     @ [extDot (brX sh s S) brBot (brX sh s S) (brY sh s S + brH sh S),
        extDot (brX sh s S + brW sh S) brBot (brX sh s S + brW sh S) (brY sh s S + brH sh S)]
     @ dimArrow brRight (brY sh s S) brRight (brY sh s S + brH sh S) (f (fH sh)) ''shape''
         \<lparr> labelOffset = None, labelSide = Some ''right'' \<rparr>
     @ [extDot brRight (brY sh s S) (brX sh s S + brW sh S) (brY sh s S),
        extDot brRight (brY sh s S + brH sh S) (brX sh s S + brW sh S) (brY sh s S + brH sh S)])"

text \<open>
  The twelve guarded calls of lines 364 to 398, each \<^verbatim>\<open>if (p > 1) dimArrow(...)\<close>.
\<close>

definition render_spacing_arrows :: "(real \<Rightarrow> string) \<Rightarrow> shape \<Rightarrow> sp \<Rightarrow> real \<Rightarrow> elem list" where
  "render_spacing_arrows f sh s S =
    (let below = \<lparr> labelOffset = Some 10, labelSide = None \<rparr>;
         above = \<lparr> labelOffset = Some (- 8), labelSide = None \<rparr>;
         right = \<lparr> labelOffset = None, labelSide = Some ''right'' \<rparr>;
         left = \<lparr> labelOffset = None, labelSide = Some ''left'' \<rparr>
     in
       (if pH0 s S > 1
        then dimArrow daX (tlY s S) (tlX s S) (tlY s S) (f (h0 s)) ''space'' below else [])
     @ (if pH1 s S > 1
        then dimArrow (tlX s S + tlW sh S) (tlY s S) (trX sh s S) (tlY s S) (f (h1 s)) ''space''
               below else [])
     @ (if pH0 s S > 1
        then dimArrow (trX sh s S + trW sh S) (tlY s S) (daX + daW sh s S) (tlY s S) (f (h0 s))
               ''space'' below else [])
     @ (if pH0 s S > 1
        then dimArrow daX (blY sh s S + blH sh S) (blX s S) (blY sh s S + blH sh S) (f (h0 s))
               ''space'' above else [])
     @ (if pH1 s S > 1
        then dimArrow (blX s S + blW sh S) (blY sh s S + blH sh S) (brX sh s S)
               (blY sh s S + blH sh S) (f (h1 s)) ''space'' above else [])
     @ (if pH0 s S > 1
        then dimArrow (brX sh s S + brW sh S) (blY sh s S + blH sh S) (daX + daW sh s S)
               (blY sh s S + blH sh S) (f (h0 s)) ''space'' above else [])
     @ (if pV0 s S > 1
        then dimArrow (tlX s S) daY (tlX s S) (tlY s S) (f (v0 s)) ''space'' right else [])
     @ (if pV1 s S > 1
        then dimArrow (tlX s S) (tlY s S + tlH sh S) (tlX s S) (blY sh s S) (f (v1 s)) ''space''
               right else [])
     @ (if pV0 s S > 1
        then dimArrow (tlX s S) (blY sh s S + blH sh S) (tlX s S) (daY + daH sh s S) (f (v0 s))
               ''space'' right else [])
     @ (if pV0 s S > 1
        then dimArrow (trX sh s S + trW sh S) daY (trX sh s S + trW sh S) (trY s S) (f (v0 s))
               ''space'' left else [])
     @ (if pV1 s S > 1
        then dimArrow (trX sh s S + trW sh S) (trY s S + trH sh S) (trX sh s S + trW sh S)
               (brY sh s S) (f (v1 s)) ''space'' left else [])
     @ (if pV0 s S > 1
        then dimArrow (trX sh s S + trW sh S) (brY sh s S + brH sh S) (trX sh s S + trW sh S)
               (daY + daH sh s S) (f (v0 s)) ''space'' left else []))"

definition render_content ::
  "(nat \<Rightarrow> real \<Rightarrow> string) \<Rightarrow> shape \<Rightarrow> sp \<Rightarrow> bool \<Rightarrow> real \<Rightarrow> elem list" where
  "render_content toFixed sh s calculated S =
       [Rect daX daY (daW sh s S) (daH sh s S) ''draw-area-bg'']
     @ render_gridV sh s S 0
     @ render_gridH sh s S 0
     @ [Rect daX daY (daW sh s S) (daH sh s S) ''draw-area-box'']
     @ render_boxes sh s S
     @ [Line (trX sh s S) (trY s S + trH sh S) (trX sh s S + trW sh S) (trY s S) ''diag'' None]
     @ render_view_labels sh s S
     @ render_shape_arrows (fmt toFixed calculated) sh s S
     @ render_spacing_arrows (fmt toFixed calculated) sh s S"

subsection \<open>render, calculate, the initial render and the resize listener\<close>

text \<open>
  \<^verbatim>\<open>render\<close> empties \<^verbatim>\<open>#drawing-content\<close>, sets the size of the \<^verbatim>\<open>svg\<close> element and
  appends the elements. The model of the drawing is for a finite scale; \<open>None\<close> stands
  for a scale that is not a finite number.
\<close>

definition render ::
  "(nat \<Rightarrow> real \<Rightarrow> string) \<Rightarrow> shape \<Rightarrow> sp \<Rightarrow> bool \<Rightarrow> dom \<Rightarrow> dom option" where
  "render toFixed sh s calculated d =
    (case render_S sh s d of
       Fin S \<Rightarrow>
         Some (d\<lparr> svg_width := daX + daW sh s S + PAD_R,
                  svg_height := daY + daH sh s S + PAD_B,
                  drawing_content := render_content toFixed sh s calculated S \<rparr>)
     | _ \<Rightarrow> None)"

definition calculate_sp :: "spacing_arrays \<Rightarrow> sp" where
  \<comment> \<open>lines 78 to 81 of \<^verbatim>\<open>calculate\<close>; both arrays have two or three elements\<close>
  "calculate_sp a =
    \<lparr> v0 = vert a ! 0,
      v1 = (if length (vert a) > 1 then vert a ! 1 else vert a ! 0),
      h0 = hori a ! 0,
      h1 = (if length (hori a) > 1 then hori a ! 1 else hori a ! 0) \<rparr>"

definition calculate :: "(nat \<Rightarrow> real \<Rightarrow> string) \<Rightarrow> dom \<Rightarrow> dom option" where
  "calculate toFixed d =
    (let inp = readInputs d;
         s = calculate_sp (getSpacing (aH inp) (aV inp) (shape_of inp));
         d' = d\<lparr> results_display := '''',
                 result_rows :=
                   [(''h0  side margins'', toFixed 2 (h0 s)),
                    (''h1  mid gap'', toFixed 2 (h1 s)),
                    (''v0  top/bot'', toFixed 2 (v0 s)),
                    (''v1  mid gap'', toFixed 2 (v1 s))] \<rparr>
     in render toFixed (shape_of inp) s True d')"

definition init :: "(nat \<Rightarrow> real \<Rightarrow> string) \<Rightarrow> dom \<Rightarrow> dom option" where
  "init toFixed d =
     render toFixed (shape_of (readInputs d)) \<lparr> v0 = 2, v1 = 3, h0 = 1.2, h1 = 2.4 \<rparr> False d"

definition on_resize :: "(nat \<Rightarrow> real \<Rightarrow> string) \<Rightarrow> dom \<Rightarrow> dom option" where
  "on_resize toFixed d =
    (let calcDone = (results_display d \<noteq> ''none'')
     in if calcDone then calculate toFixed d
        else render toFixed (shape_of (readInputs d))
               \<lparr> v0 = 2, v1 = 3, h0 = 1.2, h1 = 2.4 \<rparr> False d)"

section \<open>Reading the drawing\<close>

text \<open>
  What the statements below read off a list of drawn elements: the labels of the spacing
  (red) arrows, which are the texts of class \<^verbatim>\<open>dim-space-text\<close>; the spacing arrows
  themselves, which are the lines of class \<^verbatim>\<open>dim-space\<close> that carry arrow-head markers,
  as (x1, y1, x2, y2); and the labels of all dimension arrows, blue and red.
\<close>

fun space_label :: "elem \<Rightarrow> string list" where
  "space_label (Text t) = (if tcls t = ''dim-space-text'' then [textContent t] else [])"
| "space_label (Rect x y w h cls) = []"
| "space_label (Line x1 y1 x2 y2 cls m) = []"

definition space_labels :: "elem list \<Rightarrow> string list" where
  "space_labels es = concat (map space_label es)"

fun space_arrow :: "elem \<Rightarrow> (real \<times> real \<times> real \<times> real) list" where
  "space_arrow (Line x1 y1 x2 y2 cls (Some m)) =
     (if cls = ''dim-space'' then [(x1, y1, x2, y2)] else [])"
| "space_arrow (Line x1 y1 x2 y2 cls None) = []"
| "space_arrow (Rect x y w h cls) = []"
| "space_arrow (Text t) = []"

definition space_arrows :: "elem list \<Rightarrow> (real \<times> real \<times> real \<times> real) list" where
  "space_arrows es = concat (map space_arrow es)"

fun dim_label :: "elem \<Rightarrow> string list" where
  "dim_label (Text t) =
     (if tcls t = ''dim-shape-text'' \<or> tcls t = ''dim-space-text'' then [textContent t] else [])"
| "dim_label (Rect x y w h cls) = []"
| "dim_label (Line x1 y1 x2 y2 cls m) = []"

definition dim_labels :: "elem list \<Rightarrow> string list" where
  "dim_labels es = concat (map dim_label es)"

section \<open>Example inputs\<close>

text \<open>
  The views of the default solid (width 6, height 4, depth 5), and a page whose five
  fields are empty, whose results section is hidden and whose drawing wrapper is 800 by
  600 pixels.
\<close>

definition shape0 :: shape where
  "shape0 = \<lparr> TOP = \<lparr> H = 6, V = 5 \<rparr>, FRONT = \<lparr> H = 6, V = 4 \<rparr>, RIGHT = \<lparr> H = 5, V = 4 \<rparr> \<rparr>"

definition page0 :: dom where
  "page0 = \<lparr> width_value = None, height_value = None, depth_value = None,
      areaH_value = None, areaV_value = None, results_display = ''none'', result_rows = [],
      wrap_clientWidth = 800, wrap_clientHeight = 600, svg_width = 0, svg_height = 0,
      drawing_content = [] \<rparr>"

section \<open>The remainder test and the rounding functions\<close>

lemma js_trunc_div3: "js_trunc (of_int k / 3) = (if 0 \<le> k then k div 3 else - ((- k) div 3))"
proof -
  have f: "\<lfloor>real_of_int k / 3\<rfloor> = k div 3"
    using floor_divide_of_int_eq [of k 3, where ?'a = real] by simp
  have c: "\<lceil>real_of_int k / 3\<rceil> = - ((- k) div 3)"
    using ceiling_divide_eq_div [of k 3] by simp
  show ?thesis unfolding js_trunc_def using f c by (simp add: zero_le_divide_iff)
qed

text \<open>On an integer, \<^verbatim>\<open>r % 3 === 0\<close> is divisibility by 3, whatever the sign of \<open>r\<close>.\<close>

lemma js_rem_3_iff: "js_rem (of_int k) 3 = 0 \<longleftrightarrow> 3 dvd k"
proof -
  have "js_rem (of_int k) 3 = of_int (k - 3 * js_trunc (of_int k / 3))"
    by (simp add: js_rem_def)
  then have "js_rem (of_int k) 3 = 0 \<longleftrightarrow> k - 3 * js_trunc (of_int k / 3) = 0"
    by (metis of_int_eq_0_iff)
  also have "\<dots> \<longleftrightarrow> 3 dvd k"
    unfolding js_trunc_div3 by presburger
  finally show ?thesis .
qed

lemma js_rem_round: "js_rem (Math_round x) 3 = 0 \<longleftrightarrow> 3 dvd round x"
  by (simp add: Math_round_def js_rem_3_iff)

lemma Math_floor_half: "Math_floor (of_int k / 2) = of_int (k div 2)"
  using floor_divide_of_int_eq [of k 2, where ?'a = real] by (simp add: Math_floor_def)

lemma round_m1: "round (- 1 :: real) = - 1"
  using round_of_int [of "- 1", where ?'a = real] by simp

section \<open>getSpacing\<close>

text \<open>The two element branch, on an integer leftover \<open>k\<close>.\<close>

lemma two_part_int:
  fixes k :: int
  defines "gap \<equiv> min 3 (Math_floor (of_int k / 2))"
  defines "margin \<equiv> max 0 ((of_int k - gap) / 2)"
  shows "0 \<le> margin"
    and "0 \<le> (of_int k - gap) / 2 \<Longrightarrow> 2 * margin + gap = of_int k"
    and "0 \<le> k \<Longrightarrow> 2 * margin + gap = of_int k"
proof -
  show "0 \<le> margin" by (simp add: margin_def)
  show eq: "2 * margin + gap = of_int k" if "0 \<le> (of_int k - gap) / 2"
  proof -
    from that have "margin = (of_int k - gap) / 2" by (simp add: margin_def)
    then show ?thesis by simp
  qed
  assume k: "0 \<le> k"
  have "k div 2 \<le> k" using k by simp
  then have "real_of_int (k div 2) \<le> of_int k" by (simp only: of_int_le_iff)
  then have "gap \<le> of_int k" by (simp add: gap_def Math_floor_half min_def)
  then show "2 * margin + gap = of_int k" using eq by simp
qed

text \<open>
  C1. On an axis whose rounded leftover is not divisible by 3, \<open>getSpacing\<close> returns the
  two element array [margin, gap] with gap = min(3, floor(rounded / 2)) and
  margin = max(0, (rounded - gap) / 2). The margin is never negative, and
  2 * margin + gap = rounded whenever the clamp does not fire (that is, when
  (rounded - gap) / 2 is not negative), in particular for every rounded leftover that is
  not negative. The vertical axis first, then the horizontal one.
\<close>

theorem getSpacing_two_part:
  "(\<not> 3 dvd round (areaV - (V (FRONT sh) + V (TOP sh))) \<longrightarrow>
      (let rounded = Math_round (areaV - (V (FRONT sh) + V (TOP sh)));
           gap = min 3 (Math_floor (rounded / 2));
           margin = max 0 ((rounded - gap) / 2)
       in vert (getSpacing areaH areaV sh) = [margin, gap] \<and> 0 \<le> margin \<and>
          (0 \<le> (rounded - gap) / 2 \<longrightarrow> 2 * margin + gap = rounded) \<and>
          (0 \<le> rounded \<longrightarrow> 2 * margin + gap = rounded)))
   \<and>
   (\<not> 3 dvd round (areaH - (H (FRONT sh) + H (RIGHT sh))) \<longrightarrow>
      (let rounded = Math_round (areaH - (H (FRONT sh) + H (RIGHT sh)));
           gap = min 3 (Math_floor (rounded / 2));
           margin = max 0 ((rounded - gap) / 2)
       in hori (getSpacing areaH areaV sh) = [margin, gap] \<and> 0 \<le> margin \<and>
          (0 \<le> (rounded - gap) / 2 \<longrightarrow> 2 * margin + gap = rounded) \<and>
          (0 \<le> rounded \<longrightarrow> 2 * margin + gap = rounded)))"
proof (intro conjI impI)
  assume nd: "\<not> 3 dvd round (areaV - (V (FRONT sh) + V (TOP sh)))"
  define k where "k = round (areaV - (V (FRONT sh) + V (TOP sh)))"
  have v: "vert (getSpacing areaH areaV sh) =
      [max 0 ((of_int k - min 3 (Math_floor (of_int k / 2))) / 2),
       min 3 (Math_floor (of_int k / 2))]"
    using nd by (simp add: getSpacing_def Let_def js_rem_round) (simp add: Math_round_def k_def)
  show "let rounded = Math_round (areaV - (V (FRONT sh) + V (TOP sh)));
           gap = min 3 (Math_floor (rounded / 2));
           margin = max 0 ((rounded - gap) / 2)
       in vert (getSpacing areaH areaV sh) = [margin, gap] \<and> 0 \<le> margin \<and>
          (0 \<le> (rounded - gap) / 2 \<longrightarrow> 2 * margin + gap = rounded) \<and>
          (0 \<le> rounded \<longrightarrow> 2 * margin + gap = rounded)"
    unfolding Let_def Math_round_def k_def [symmetric]
    using v two_part_int [of k] by simp
next
  assume nd: "\<not> 3 dvd round (areaH - (H (FRONT sh) + H (RIGHT sh)))"
  define k where "k = round (areaH - (H (FRONT sh) + H (RIGHT sh)))"
  have v: "hori (getSpacing areaH areaV sh) =
      [max 0 ((of_int k - min 3 (Math_floor (of_int k / 2))) / 2),
       min 3 (Math_floor (of_int k / 2))]"
    using nd by (simp add: getSpacing_def Let_def js_rem_round) (simp add: Math_round_def k_def)
  show "let rounded = Math_round (areaH - (H (FRONT sh) + H (RIGHT sh)));
           gap = min 3 (Math_floor (rounded / 2));
           margin = max 0 ((rounded - gap) / 2)
       in hori (getSpacing areaH areaV sh) = [margin, gap] \<and> 0 \<le> margin \<and>
          (0 \<le> (rounded - gap) / 2 \<longrightarrow> 2 * margin + gap = rounded) \<and>
          (0 \<le> rounded \<longrightarrow> 2 * margin + gap = rounded)"
    unfolding Let_def Math_round_def k_def [symmetric]
    using v two_part_int [of k] by simp
qed

text \<open>
  The default solid in a 16 by 16 area: the leftovers are 7 and 5, neither divisible
  by 3.
\<close>

theorem getSpacing_two_part_witness:
  "\<not> 3 dvd round (16 - (V (FRONT shape0) + V (TOP shape0))) \<and>
   vert (getSpacing 16 16 shape0) = [2, 3] \<and> 2 * 2 + 3 = (7 :: real) \<and>
   \<not> 3 dvd round (16 - (H (FRONT shape0) + H (RIGHT shape0))) \<and>
   hori (getSpacing 16 16 shape0) = [3 / 2, 2] \<and> 2 * (3 / 2) + 2 = (5 :: real)"
  using getSpacing_two_part [of 16 shape0 16]
  by (simp add: shape0_def Let_def Math_round_def Math_floor_def)

text \<open>
  C2. On an axis whose rounded leftover is divisible by 3, \<open>getSpacing\<close> returns three
  equal parts, each rounded / 3, whose sum is the rounded leftover; a leftover of 9 gives
  3, 3, 3. The vertical axis first, then the horizontal one.
\<close>

theorem getSpacing_three_equal:
  "(3 dvd round (areaV - (V (FRONT sh) + V (TOP sh))) \<longrightarrow>
      (let rounded = Math_round (areaV - (V (FRONT sh) + V (TOP sh)))
       in vert (getSpacing areaH areaV sh) = [rounded / 3, rounded / 3, rounded / 3] \<and>
          sum_list (vert (getSpacing areaH areaV sh)) = rounded \<and>
          (rounded = 9 \<longrightarrow> vert (getSpacing areaH areaV sh) = [3, 3, 3])))
   \<and>
   (3 dvd round (areaH - (H (FRONT sh) + H (RIGHT sh))) \<longrightarrow>
      (let rounded = Math_round (areaH - (H (FRONT sh) + H (RIGHT sh)))
       in hori (getSpacing areaH areaV sh) = [rounded / 3, rounded / 3, rounded / 3] \<and>
          sum_list (hori (getSpacing areaH areaV sh)) = rounded \<and>
          (rounded = 9 \<longrightarrow> hori (getSpacing areaH areaV sh) = [3, 3, 3])))"
proof (intro conjI impI)
  assume d: "3 dvd round (areaV - (V (FRONT sh) + V (TOP sh)))"
  then have v: "vert (getSpacing areaH areaV sh) =
      [Math_round (areaV - (V (FRONT sh) + V (TOP sh))) / 3,
       Math_round (areaV - (V (FRONT sh) + V (TOP sh))) / 3,
       Math_round (areaV - (V (FRONT sh) + V (TOP sh))) / 3]"
    by (simp add: getSpacing_def Let_def js_rem_round)
  show "let rounded = Math_round (areaV - (V (FRONT sh) + V (TOP sh)))
       in vert (getSpacing areaH areaV sh) = [rounded / 3, rounded / 3, rounded / 3] \<and>
          sum_list (vert (getSpacing areaH areaV sh)) = rounded \<and>
          (rounded = 9 \<longrightarrow> vert (getSpacing areaH areaV sh) = [3, 3, 3])"
    unfolding Let_def v by simp
next
  assume d: "3 dvd round (areaH - (H (FRONT sh) + H (RIGHT sh)))"
  then have v: "hori (getSpacing areaH areaV sh) =
      [Math_round (areaH - (H (FRONT sh) + H (RIGHT sh))) / 3,
       Math_round (areaH - (H (FRONT sh) + H (RIGHT sh))) / 3,
       Math_round (areaH - (H (FRONT sh) + H (RIGHT sh))) / 3]"
    by (simp add: getSpacing_def Let_def js_rem_round)
  show "let rounded = Math_round (areaH - (H (FRONT sh) + H (RIGHT sh)))
       in hori (getSpacing areaH areaV sh) = [rounded / 3, rounded / 3, rounded / 3] \<and>
          sum_list (hori (getSpacing areaH areaV sh)) = rounded \<and>
          (rounded = 9 \<longrightarrow> hori (getSpacing areaH areaV sh) = [3, 3, 3])"
    unfolding Let_def v by simp
qed

text \<open>The default solid in a 20 by 18 area: both leftovers are 9.\<close>

theorem getSpacing_three_equal_witness:
  "3 dvd round (18 - (V (FRONT shape0) + V (TOP shape0))) \<and>
   Math_round (18 - (V (FRONT shape0) + V (TOP shape0))) = 9 \<and>
   vert (getSpacing 20 18 shape0) = [3, 3, 3] \<and>
   sum_list (vert (getSpacing 20 18 shape0)) = 9 \<and>
   3 dvd round (20 - (H (FRONT shape0) + H (RIGHT shape0))) \<and>
   hori (getSpacing 20 18 shape0) = [3, 3, 3] \<and>
   sum_list (hori (getSpacing 20 18 shape0)) = 9"
  using getSpacing_three_equal [of 18 shape0 20]
  by (simp add: shape0_def Let_def Math_round_def)

text \<open>
  C3 (every value returned by \<open>getSpacing\<close> is at least 0, also for a negative leftover).
  The code clamps only the margin of the two element branch. With the default solid and
  an area height of 6 the leftover is -3 and all three vertical parts are -1; with an
  area height of 8 the leftover is -1 and the vertical gap is -1. Both inputs go through
  \<open>readInputs\<close> unchanged.
\<close>

theorem getSpacing_negative_values:
  "readInputs (page0\<lparr> areaV_value := Some 6 \<rparr>) =
     \<lparr> W = 6, H' = 4, D = 5, aH = 16, aV = 6, shape_of = shape0 \<rparr> \<and>
   getSpacing 16 6 shape0 = \<lparr> vert = [- 1, - 1, - 1], hori = [3 / 2, 2] \<rparr> \<and>
   calculate_sp (getSpacing 16 6 shape0) = \<lparr> v0 = - 1, v1 = - 1, h0 = 3 / 2, h1 = 2 \<rparr> \<and>
   readInputs (page0\<lparr> areaV_value := Some 8 \<rparr>) =
     \<lparr> W = 6, H' = 4, D = 5, aH = 16, aV = 8, shape_of = shape0 \<rparr> \<and>
   getSpacing 16 8 shape0 = \<lparr> vert = [0, - 1], hori = [3 / 2, 2] \<rparr> \<and>
   calculate_sp (getSpacing 16 8 shape0) = \<lparr> v0 = 0, v1 = - 1, h0 = 3 / 2, h1 = 2 \<rparr>"
proof -
  have r: "readInputs (page0\<lparr> areaV_value := Some 6 \<rparr>) =
     \<lparr> W = 6, H' = 4, D = 5, aH = 16, aV = 6, shape_of = shape0 \<rparr>"
     "readInputs (page0\<lparr> areaV_value := Some 8 \<rparr>) =
     \<lparr> W = 6, H' = 4, D = 5, aH = 16, aV = 8, shape_of = shape0 \<rparr>"
    by (simp_all add: readInputs_def page0_def js_or_def shape0_def)
  have a: "getSpacing 16 6 shape0 = \<lparr> vert = [- 1, - 1, - 1], hori = [3 / 2, 2] \<rparr>"
    by (simp add: getSpacing_def Let_def js_rem_round shape0_def)
       (simp add: Math_round_def Math_floor_def)
  have b: "getSpacing 16 8 shape0 = \<lparr> vert = [0, - 1], hori = [3 / 2, 2] \<rparr>"
    by (simp add: getSpacing_def Let_def js_rem_round shape0_def round_m1)
       (simp add: Math_round_def Math_floor_def round_m1)
  show ?thesis unfolding a b using r by (simp add: calculate_sp_def)
qed

section \<open>The scale\<close>

lemma availW_ge: "200 \<le> availW d"
  by (simp add: availW_def)

lemma availH_ge: "200 \<le> availH d"
  by (simp add: availH_def)

text \<open>
  The numerators of the two quotients are at least 88 and 112, so a quotient is a finite
  number or, for a grid extent of 0, plus infinity; it is never \<^verbatim>\<open>NaN\<close>.
\<close>

lemma scaleH_cases: "scaleH sh s d = PosInf \<or> (\<exists>q. scaleH sh s d = Fin q)"
  using availW_ge [of d] by (simp add: scaleH_def js_div_def PAD_L_def PAD_R_def)

lemma scaleV_cases: "scaleV sh s d = PosInf \<or> (\<exists>q. scaleV sh s d = Fin q)"
  using availH_ge [of d] by (simp add: scaleV_def js_div_def PAD_T_def PAD_B_def)

lemma render_S_finite: "\<exists>S. render_S sh s d = Fin S \<and> 6 \<le> S \<and> S \<le> 40"
  using scaleH_cases [of sh s d] scaleV_cases [of sh s d]
  by (auto simp: render_S_def)

text \<open>\<open>render\<close> always draws: the scale is a finite number.\<close>

lemma render_Some:
  "\<exists>S d'. 6 \<le> S \<and> S \<le> 40 \<and> render_S sh s d = Fin S \<and>
     render tf sh s c d = Some d' \<and>
     drawing_content d' = render_content tf sh s c S \<and>
     svg_width d' = daX + daW sh s S + PAD_R \<and>
     svg_height d' = daY + daH sh s S + PAD_B \<and>
     result_rows d' = result_rows d \<and> results_display d' = results_display d"
  using render_S_finite [of sh s d] by (auto simp: render_def)

text \<open>
  C6. For every shape, spacing and page, the scale \<open>S\<close> that \<open>render\<close> chooses is a finite
  number in [6, 40], and it is the minimum of \<open>scaleH\<close> and \<open>scaleV\<close> whenever that minimum
  lies in [6, 40]; when neither grid extent is 0 that minimum is
  min((availW - PAD_L - PAD_R) / totalUnitsH, (availH - PAD_T - PAD_B) / totalUnitsV).
\<close>

theorem render_S_clamped:
  "\<exists>S. render_S sh s d = Fin S \<and> 6 \<le> S \<and> S \<le> 40 \<and>
     (\<forall>m. Math_min (scaleH sh s d) (scaleV sh s d) = Fin m \<and> 6 \<le> m \<and> m \<le> 40 \<longrightarrow> S = m) \<and>
     (totalUnitsH sh s \<noteq> 0 \<and> totalUnitsV sh s \<noteq> 0 \<longrightarrow>
        (let m = min ((availW d - PAD_L - PAD_R) / totalUnitsH sh s)
                     ((availH d - PAD_T - PAD_B) / totalUnitsV sh s)
         in 6 \<le> m \<and> m \<le> 40 \<longrightarrow> S = m))"
proof -
  from render_S_finite [of sh s d] obtain S where
    S: "render_S sh s d = Fin S" "6 \<le> S" "S \<le> 40" by blast
  have a: "S = m" if "Math_min (scaleH sh s d) (scaleV sh s d) = Fin m" "6 \<le> m" "m \<le> 40" for m
    using that S(1) by (simp add: render_S_def)
  have b: "Math_min (scaleH sh s d) (scaleV sh s d) =
        Fin (min ((availW d - PAD_L - PAD_R) / totalUnitsH sh s)
                 ((availH d - PAD_T - PAD_B) / totalUnitsV sh s))"
    if "totalUnitsH sh s \<noteq> 0" "totalUnitsV sh s \<noteq> 0"
    using that by (simp add: scaleH_def scaleV_def js_div_def)
  show ?thesis
    using S a b by (auto simp: Let_def)
qed

text \<open>The default solid with the fallback spacing in an 800 by 600 wrapper: the scale is 31.875.\<close>

theorem render_S_clamped_witness:
  "render_S shape0 \<lparr> v0 = 2, v1 = 3, h0 = 1.2, h1 = 2.4 \<rparr> page0 = Fin (255 / 8) \<and>
   totalUnitsH shape0 \<lparr> v0 = 2, v1 = 3, h0 = 1.2, h1 = 2.4 \<rparr> = 15.8 \<and>
   totalUnitsV shape0 \<lparr> v0 = 2, v1 = 3, h0 = 1.2, h1 = 2.4 \<rparr> = 16 \<and>
   min ((availW page0 - PAD_L - PAD_R) / 15.8) ((availH page0 - PAD_T - PAD_B) / 16) = 255 / 8 \<and>
   (6 :: real) \<le> 255 / 8 \<and> (255 :: real) / 8 \<le> 40"
proof -
  let ?s = "\<lparr> v0 = 2, v1 = 3, h0 = 1.2, h1 = 2.4 \<rparr>"
  have t: "totalUnitsH shape0 ?s = 15.8" "totalUnitsV shape0 ?s = 16"
    by (simp_all add: totalUnitsH_def totalUnitsV_def fW_def fH_def dW_def dH_def shape0_def)
  have m: "min ((availW page0 - PAD_L - PAD_R) / 15.8) ((availH page0 - PAD_T - PAD_B) / 16)
      = 255 / 8"
    by (simp add: availW_def availH_def page0_def PAD_L_def PAD_R_def PAD_T_def PAD_B_def)
  from render_S_clamped [of shape0 ?s page0] obtain S where
    S: "render_S shape0 ?s page0 = Fin S" and
    imp: "totalUnitsH shape0 ?s \<noteq> 0 \<and> totalUnitsV shape0 ?s \<noteq> 0 \<longrightarrow>
        (let m = min ((availW page0 - PAD_L - PAD_R) / totalUnitsH shape0 ?s)
                     ((availH page0 - PAD_T - PAD_B) / totalUnitsV shape0 ?s)
         in 6 \<le> m \<and> m \<le> 40 \<longrightarrow> S = m)"
    by blast
  have "S = 255 / 8"
    using imp unfolding t m Let_def by simp
  with S t m show ?thesis by simp
qed

section \<open>The default inputs\<close>

text \<open>
  C4. When each of the five fields is absent or non-numeric (\<open>None\<close>) or holds its
  default, \<open>readInputs\<close> gives width 6, height 4, depth 5 and a 16 by 16 area, and
  \<open>calculate\<close> computes the spacing v0 = 2, v1 = 3, h0 = 1.5, h1 = 2: these are the four
  values of the result rows (formatted by \<open>toFixed 2\<close>) and the spacing of the drawing.
\<close>

theorem default_inputs_spacing:
  assumes "width_value d = None \<or> width_value d = Some 6"
    and "height_value d = None \<or> height_value d = Some 4"
    and "depth_value d = None \<or> depth_value d = Some 5"
    and "areaH_value d = None \<or> areaH_value d = Some 16"
    and "areaV_value d = None \<or> areaV_value d = Some 16"
  shows "readInputs d = \<lparr> W = 6, H' = 4, D = 5, aH = 16, aV = 16, shape_of = shape0 \<rparr> \<and>
    getSpacing 16 16 shape0 = \<lparr> vert = [2, 3], hori = [3 / 2, 2] \<rparr> \<and>
    calculate_sp (getSpacing 16 16 shape0) = \<lparr> v0 = 2, v1 = 3, h0 = 3 / 2, h1 = 2 \<rparr> \<and>
    (\<exists>d' S. calculate toFixed d = Some d' \<and>
       result_rows d' =
         [(''h0  side margins'', toFixed 2 (3 / 2)), (''h1  mid gap'', toFixed 2 2),
          (''v0  top/bot'', toFixed 2 2), (''v1  mid gap'', toFixed 2 3)] \<and>
       drawing_content d' =
         render_content toFixed shape0 \<lparr> v0 = 2, v1 = 3, h0 = 3 / 2, h1 = 2 \<rparr> True S)"
proof -
  have r: "readInputs d = \<lparr> W = 6, H' = 4, D = 5, aH = 16, aV = 16, shape_of = shape0 \<rparr>"
    using assms by (auto simp: readInputs_def js_or_def shape0_def)
  have g: "getSpacing 16 16 shape0 = \<lparr> vert = [2, 3], hori = [3 / 2, 2] \<rparr>"
    by (simp add: getSpacing_def Let_def js_rem_round shape0_def)
       (simp add: Math_round_def Math_floor_def)
  have c: "calculate_sp (getSpacing 16 16 shape0) = \<lparr> v0 = 2, v1 = 3, h0 = 3 / 2, h1 = 2 \<rparr>"
    unfolding g by (simp add: calculate_sp_def)
  define d1 where "d1 = d\<lparr> results_display := '''',
       result_rows := [(''h0  side margins'', toFixed 2 (3 / 2)), (''h1  mid gap'', toFixed 2 2),
          (''v0  top/bot'', toFixed 2 2), (''v1  mid gap'', toFixed 2 3)] \<rparr>"
  have calc: "calculate toFixed d =
      render toFixed shape0 \<lparr> v0 = 2, v1 = 3, h0 = 3 / 2, h1 = 2 \<rparr> True d1"
    by (simp add: calculate_def Let_def r c d1_def)
  from render_Some [of shape0 "\<lparr> v0 = 2, v1 = 3, h0 = 3 / 2, h1 = 2 \<rparr>" d1 toFixed True]
  obtain S d' where
    "render toFixed shape0 \<lparr> v0 = 2, v1 = 3, h0 = 3 / 2, h1 = 2 \<rparr> True d1 = Some d'"
    "drawing_content d' =
       render_content toFixed shape0 \<lparr> v0 = 2, v1 = 3, h0 = 3 / 2, h1 = 2 \<rparr> True S"
    "result_rows d' = result_rows d1"
    by blast
  then have "\<exists>d' S. calculate toFixed d = Some d' \<and>
       result_rows d' =
         [(''h0  side margins'', toFixed 2 (3 / 2)), (''h1  mid gap'', toFixed 2 2),
          (''v0  top/bot'', toFixed 2 2), (''v1  mid gap'', toFixed 2 3)] \<and>
       drawing_content d' =
         render_content toFixed shape0 \<lparr> v0 = 2, v1 = 3, h0 = 3 / 2, h1 = 2 \<rparr> True S"
    unfolding calc by (auto simp: d1_def)
  with r g c show ?thesis by blast
qed

text \<open>The page with five empty fields.\<close>

theorem default_inputs_spacing_witness:
  "readInputs page0 = \<lparr> W = 6, H' = 4, D = 5, aH = 16, aV = 16, shape_of = shape0 \<rparr> \<and>
   calculate_sp (getSpacing 16 16 shape0) = \<lparr> v0 = 2, v1 = 3, h0 = 3 / 2, h1 = 2 \<rparr> \<and>
   (\<forall>toFixed. \<exists>d'. calculate toFixed page0 = Some d' \<and>
       result_rows d' =
         [(''h0  side margins'', toFixed 2 (3 / 2)), (''h1  mid gap'', toFixed 2 2),
          (''v0  top/bot'', toFixed 2 2), (''v1  mid gap'', toFixed 2 3)])"
proof -
  have p: "width_value page0 = None" "height_value page0 = None" "depth_value page0 = None"
    "areaH_value page0 = None" "areaV_value page0 = None"
    by (simp_all add: page0_def)
  show ?thesis
    using default_inputs_spacing [of page0] p by blast
qed

section \<open>The grid and the four boxes\<close>

lemmas geom_defs =
  daX_def daY_def daW_def daH_def pH0_def pH1_def pV0_def pV1_def pfW_def pfH_def pdW_def pdH_def
  tlX_def tlY_def tlW_def tlH_def trX_def trY_def trW_def trH_def
  blX_def blY_def blW_def blH_def brX_def brY_def brW_def brH_def
  fW_def fH_def dW_def dH_def totalUnitsH_def totalUnitsV_def

text \<open>
  C5. For every shape, spacing and scale \<open>S\<close>, in pixels from the origin (daX, daY) of
  the drawing area: the top-left box is at (h0, v0) times \<open>S\<close> and has the size
  (FRONT.H, TOP.V) times \<open>S\<close>; the top-right box starts at TL.x + TL.width + h1 * S; the
  bottom-left box starts at TL.y + TL.height + v1 * S; the bottom-right box is at
  (TR.x, BL.y) and has the size (RIGHT.H, FRONT.V) times \<open>S\<close>; the grid extent on each axis
  is margin + first view + middle gap + second view + the same margin, so that the second
  row and column end one margin before the end of the drawing area. \<open>render\<close> draws these
  four boxes, at the scale it chooses, and sizes the svg element by the grid extent.
\<close>

theorem boxes_tile_grid:
  "(tlX s S = daX + h0 s * S \<and> tlY s S = daY + v0 s * S \<and>
    tlW sh S = H (FRONT sh) * S \<and> tlH sh S = V (TOP sh) * S \<and>
    trX sh s S = tlX s S + tlW sh S + h1 s * S \<and> trY s S = tlY s S \<and>
    trW sh S = H (RIGHT sh) * S \<and> trH sh S = V (TOP sh) * S \<and>
    blX s S = tlX s S \<and> blY sh s S = tlY s S + tlH sh S + v1 s * S \<and>
    blW sh S = H (FRONT sh) * S \<and> blH sh S = V (FRONT sh) * S \<and>
    brX sh s S = trX sh s S \<and> brY sh s S = blY sh s S \<and>
    brW sh S = H (RIGHT sh) * S \<and> brH sh S = V (FRONT sh) * S \<and>
    totalUnitsH sh s = h0 s + H (FRONT sh) + h1 s + H (RIGHT sh) + h0 s \<and>
    totalUnitsV sh s = v0 s + V (TOP sh) + v1 s + V (FRONT sh) + v0 s \<and>
    daW sh s S = totalUnitsH sh s * S \<and> daH sh s S = totalUnitsV sh s * S \<and>
    trX sh s S + trW sh S + h0 s * S = daX + daW sh s S \<and>
    brX sh s S + brW sh S + h0 s * S = daX + daW sh s S \<and>
    blY sh s S + blH sh S + v0 s * S = daY + daH sh s S \<and>
    brY sh s S + brH sh S + v0 s * S = daY + daH sh s S) \<and>
   (\<exists>S' d'. render toFixed sh s calculated d = Some d' \<and> render_S sh s d = Fin S' \<and>
      svg_width d' = daX + daW sh s S' + PAD_R \<and> svg_height d' = daY + daH sh s S' + PAD_B \<and>
      Rect (tlX s S') (tlY s S') (tlW sh S') (tlH sh S') ''box'' \<in> set (drawing_content d') \<and>
      Rect (trX sh s S') (trY s S') (trW sh S') (trH sh S') ''box-accent''
        \<in> set (drawing_content d') \<and>
      Rect (blX s S') (blY sh s S') (blW sh S') (blH sh S') ''box'' \<in> set (drawing_content d') \<and>
      Rect (brX sh s S') (brY sh s S') (brW sh S') (brH sh S') ''box'' \<in> set (drawing_content d'))"
proof -
  from render_Some [of sh s d toFixed calculated] obtain S' d' where
    r: "render toFixed sh s calculated d = Some d'" "render_S sh s d = Fin S'"
       "drawing_content d' = render_content toFixed sh s calculated S'"
       "svg_width d' = daX + daW sh s S' + PAD_R" "svg_height d' = daY + daH sh s S' + PAD_B"
    by blast
  have b: "set (render_boxes sh s S') \<subseteq> set (drawing_content d')"
    unfolding r(3) render_content_def by auto
  have "\<exists>S' d'. render toFixed sh s calculated d = Some d' \<and> render_S sh s d = Fin S' \<and>
      svg_width d' = daX + daW sh s S' + PAD_R \<and> svg_height d' = daY + daH sh s S' + PAD_B \<and>
      Rect (tlX s S') (tlY s S') (tlW sh S') (tlH sh S') ''box'' \<in> set (drawing_content d') \<and>
      Rect (trX sh s S') (trY s S') (trW sh S') (trH sh S') ''box-accent''
        \<in> set (drawing_content d') \<and>
      Rect (blX s S') (blY sh s S') (blW sh S') (blH sh S') ''box'' \<in> set (drawing_content d') \<and>
      Rect (brX sh s S') (brY sh s S') (brW sh S') (brH sh S') ''box'' \<in> set (drawing_content d')"
    using r(1,2,4,5) b by (intro exI [of _ S'] exI [of _ d']) (simp add: render_boxes_def)
  moreover have "tlX s S = daX + h0 s * S \<and> tlY s S = daY + v0 s * S \<and>
    tlW sh S = H (FRONT sh) * S \<and> tlH sh S = V (TOP sh) * S \<and>
    trX sh s S = tlX s S + tlW sh S + h1 s * S \<and> trY s S = tlY s S \<and>
    trW sh S = H (RIGHT sh) * S \<and> trH sh S = V (TOP sh) * S \<and>
    blX s S = tlX s S \<and> blY sh s S = tlY s S + tlH sh S + v1 s * S \<and>
    blW sh S = H (FRONT sh) * S \<and> blH sh S = V (FRONT sh) * S \<and>
    brX sh s S = trX sh s S \<and> brY sh s S = blY sh s S \<and>
    brW sh S = H (RIGHT sh) * S \<and> brH sh S = V (FRONT sh) * S \<and>
    totalUnitsH sh s = h0 s + H (FRONT sh) + h1 s + H (RIGHT sh) + h0 s \<and>
    totalUnitsV sh s = v0 s + V (TOP sh) + v1 s + V (FRONT sh) + v0 s \<and>
    daW sh s S = totalUnitsH sh s * S \<and> daH sh s S = totalUnitsV sh s * S \<and>
    trX sh s S + trW sh S + h0 s * S = daX + daW sh s S \<and>
    brX sh s S + brW sh S + h0 s * S = daX + daW sh s S \<and>
    blY sh s S + blH sh S + v0 s * S = daY + daH sh s S \<and>
    brY sh s S + brH sh S + v0 s * S = daY + daH sh s S"
    by (simp add: geom_defs algebra_simps)
  ultimately show ?thesis by (rule conjI [rotated])
qed

section \<open>dimArrow: where the label goes\<close>

lemma Math_hypot_0_right: "Math_hypot dx 0 = \<bar>dx\<bar>"
  by (simp add: Math_hypot_def)

lemma Math_hypot_0_left: "Math_hypot 0 dy = \<bar>dy\<bar>"
  by (simp add: Math_hypot_def)

text \<open>An arrow that is drawn is not both horizontal and vertical.\<close>

lemma hypot_small:
  assumes "\<bar>dx\<bar> < 0.5" and "\<bar>dy\<bar> < 0.5"
  shows "Math_hypot dx dy < 1"
proof -
  have sq: "a\<^sup>2 < 1 / 4" if "\<bar>a\<bar> < 0.5" for a :: real
  proof -
    from that have "\<bar>a\<bar>\<^sup>2 < (1 / 2)\<^sup>2"
      by (intro power_strict_mono) simp_all
    then show ?thesis by (simp add: power2_eq_square)
  qed
  from sq [OF assms(1)] sq [OF assms(2)] have "dx\<^sup>2 + dy\<^sup>2 < 1"
    by simp
  then have "sqrt (dx\<^sup>2 + dy\<^sup>2) < sqrt 1"
    by (simp only: real_sqrt_less_iff)
  then show ?thesis by (simp add: Math_hypot_def)
qed

text \<open>
  C8. A horizontal arrow (\<open>\<bar>dy\<bar> < 0.5\<close>) that is drawn (length at least 1): when its
  length is at least 14 the label is centred (anchor \<^verbatim>\<open>middle\<close>) at the midpoint x, at the
  midpoint y plus the signed offset \<open>labelOffset\<close> (-8 when absent: above the line); when
  its length is below 14 the label is start-anchored 5 px to the right of the rightmost
  end point, at the height of the line.
\<close>

theorem dimArrow_horizontal_label:
  fixes x1 y1 x2 y2 :: real and label type :: string and os :: opts
  assumes "\<bar>y2 - y1\<bar> < 0.5" and "1 \<le> Math_hypot (x2 - x1) (y2 - y1)"
  shows "\<exists>a t1 t2 t. dimArrow x1 y1 x2 y2 label type os = [a, t1, t2, Text t] \<and>
    textContent t = label \<and>
    (14 \<le> Math_hypot (x2 - x1) (y2 - y1) \<longrightarrow>
       tx t = Some ((x1 + x2) / 2) \<and>
       ty t = Some ((y1 + y2) / 2 + (case labelOffset os of Some off \<Rightarrow> off | None \<Rightarrow> - 8)) \<and>
       text_anchor t = Some ''middle'') \<and>
    (Math_hypot (x2 - x1) (y2 - y1) < 14 \<longrightarrow>
       tx t = Some (max x1 x2 + 5) \<and> ty t = Some ((y1 + y2) / 2) \<and>
       text_anchor t = Some ''start'')"
  using assms by (simp add: dimArrow_def Let_def MIN_LBL_def)

text \<open>
  C9, as the code has it. A vertical arrow (\<open>\<bar>dx\<bar> < 0.5\<close>) that is drawn (length at
  least 1): the label is offset horizontally from the midpoint x by \<open>labelOffset\<close> (12
  when absent), added and start-anchored for the side \<^verbatim>\<open>right\<close>, subtracted and
  end-anchored otherwise (the side \<^verbatim>\<open>left\<close>); it is at the midpoint height when the length
  is at least 14, and 10 px above the midpoint height when the length is below 14. The
  short label is moved up only: it stays beside the line, with the same horizontal offset
  and anchor (the claim says it is above the midpoint rather than beside it).
\<close>

theorem dimArrow_vertical_label:
  fixes x1 y1 x2 y2 :: real and label type :: string and os :: opts
  assumes "\<bar>x2 - x1\<bar> < 0.5" and "1 \<le> Math_hypot (x2 - x1) (y2 - y1)"
  shows "\<exists>a t1 t2 t. dimArrow x1 y1 x2 y2 label type os = [a, t1, t2, Text t] \<and>
    textContent t = label \<and>
    tx t = Some ((x1 + x2) / 2 +
             (if labelSide os = Some ''right'' then 1 else - 1) *
             (case labelOffset os of Some off \<Rightarrow> off | None \<Rightarrow> 12)) \<and>
    text_anchor t = Some (if labelSide os = Some ''right'' then ''start'' else ''end'') \<and>
    (14 \<le> Math_hypot (x2 - x1) (y2 - y1) \<longrightarrow> ty t = Some ((y1 + y2) / 2)) \<and>
    (Math_hypot (x2 - x1) (y2 - y1) < 14 \<longrightarrow> ty t = Some ((y1 + y2) / 2 - 10))"
proof -
  have nh: "\<not> \<bar>y2 - y1\<bar> < 0.5"
    using hypot_small [of "x2 - x1" "y2 - y1"] assms by auto
  show ?thesis
    using assms nh by (simp add: dimArrow_def Let_def MIN_LBL_def)
qed

text \<open>A blue arrow of 20 px with no options, and a red one of 10 px.\<close>

theorem dimArrow_horizontal_label_witness:
  "\<bar>0 - 0\<bar> < (0.5 :: real) \<and> Math_hypot (20 - 0) (0 - 0) = 20 \<and>
   (\<exists>a t1 t2 t. dimArrow 0 0 20 0 ''6.0'' ''shape'' no_opts = [a, t1, t2, Text t] \<and>
      textContent t = ''6.0'' \<and> tx t = Some 10 \<and> ty t = Some (- 8) \<and>
      text_anchor t = Some ''middle'') \<and>
   Math_hypot (10 - 0) (0 - 0) = 10 \<and>
   (\<exists>a t1 t2 t. dimArrow 0 0 10 0 ''1.2'' ''space'' no_opts = [a, t1, t2, Text t] \<and>
      textContent t = ''1.2'' \<and> tx t = Some 15 \<and> ty t = Some 0 \<and>
      text_anchor t = Some ''start'')"
proof -
  have h: "Math_hypot (20 - 0) (0 - 0) = 20" "Math_hypot (10 - 0) (0 - 0) = 10"
    by (simp_all add: Math_hypot_0_right)
  have a: "\<bar>0 - 0\<bar> < (0.5 :: real)" by simp
  from dimArrow_horizontal_label [of 0 0 20 0 "''6.0''" "''shape''" no_opts] h
  have 1: "\<exists>a t1 t2 t. dimArrow 0 0 20 0 ''6.0'' ''shape'' no_opts = [a, t1, t2, Text t] \<and>
      textContent t = ''6.0'' \<and> tx t = Some 10 \<and> ty t = Some (- 8) \<and>
      text_anchor t = Some ''middle''"
    by (simp add: no_opts_def)
  from dimArrow_horizontal_label [of 0 0 10 0 "''1.2''" "''space''" no_opts] h
  have 2: "\<exists>a t1 t2 t. dimArrow 0 0 10 0 ''1.2'' ''space'' no_opts = [a, t1, t2, Text t] \<and>
      textContent t = ''1.2'' \<and> tx t = Some 15 \<and> ty t = Some 0 \<and>
      text_anchor t = Some ''start''"
    by (simp add: no_opts_def)
  from a h 1 2 show ?thesis by blast
qed

text \<open>A blue arrow of 20 px labelled on the left, and a red one of 10 px labelled on the right.\<close>

theorem dimArrow_vertical_label_witness:
  "\<bar>0 - 0\<bar> < (0.5 :: real) \<and> Math_hypot (0 - 0) (20 - 0) = 20 \<and>
   (\<exists>a t1 t2 t. dimArrow 0 0 0 20 ''4.0'' ''shape'' \<lparr> labelOffset = None, labelSide = Some ''left'' \<rparr>
        = [a, t1, t2, Text t] \<and>
      textContent t = ''4.0'' \<and> tx t = Some (- 12) \<and>
      text_anchor t = Some ''end'' \<and> ty t = Some 10) \<and>
   Math_hypot (0 - 0) (10 - 0) = 10 \<and>
   (\<exists>a t1 t2 t. dimArrow 0 0 0 10 ''2.0'' ''space'' \<lparr> labelOffset = None, labelSide = Some ''right'' \<rparr>
        = [a, t1, t2, Text t] \<and>
      textContent t = ''2.0'' \<and> tx t = Some 12 \<and>
      text_anchor t = Some ''start'' \<and> ty t = Some (- 5))"
proof -
  have h: "Math_hypot (0 - 0) (20 - 0) = 20" "Math_hypot (0 - 0) (10 - 0) = 10"
    by (simp_all add: Math_hypot_0_left)
  have a: "\<bar>0 - 0\<bar> < (0.5 :: real)" by simp
  from dimArrow_vertical_label [of 0 0 20 0 "''4.0''" "''shape''"
      "\<lparr> labelOffset = None, labelSide = Some ''left'' \<rparr>"] h
  have 1: "\<exists>a t1 t2 t. dimArrow 0 0 0 20 ''4.0'' ''shape'' \<lparr> labelOffset = None, labelSide = Some ''left'' \<rparr>
        = [a, t1, t2, Text t] \<and>
      textContent t = ''4.0'' \<and> tx t = Some (- 12) \<and>
      text_anchor t = Some ''end'' \<and> ty t = Some 10"
    by simp
  from dimArrow_vertical_label [of 0 0 10 0 "''2.0''" "''space''"
      "\<lparr> labelOffset = None, labelSide = Some ''right'' \<rparr>"] h
  have 2: "\<exists>a t1 t2 t. dimArrow 0 0 0 10 ''2.0'' ''space'' \<lparr> labelOffset = None, labelSide = Some ''right'' \<rparr>
        = [a, t1, t2, Text t] \<and>
      textContent t = ''2.0'' \<and> tx t = Some 12 \<and>
      text_anchor t = Some ''start'' \<and> ty t = Some (- 5)"
    by simp
  from a h 1 2 show ?thesis by blast
qed

text \<open>
  A red vertical arrow of 10 px from (0, 0) to (0, 10), labelled on the right: the label
  is 10 px above the midpoint height 5, and it is still beside the line, start-anchored
  12 px to the right of the midpoint x = 0.
\<close>

theorem dimArrow_short_vertical_counterexample:
  "Math_hypot (0 - 0) (10 - 0) = 10 \<and>
   dimArrow 0 0 0 10 ''2.0'' ''space'' \<lparr> labelOffset = None, labelSide = Some ''right'' \<rparr> =
     [Line 0 0 0 10 ''dim-space'' (Some (''url(#ah-red-e)'', ''url(#ah-red-s)'')),
      svgLine (- 5) 0 5 0 ''dim-space'',
      svgLine (- 5) 10 5 10 ''dim-space'',
      Text \<lparr> tx = Some 12, ty = Some (- 5), text_anchor = Some ''start'',
             tcls = ''dim-space-text'', textContent = ''2.0'' \<rparr>] \<and>
   Some (12 :: real) \<noteq> Some ((0 + 0) / 2)"
  by (simp add: dimArrow_def Let_def Math_hypot_0_left MIN_LBL_def TICK_def)

section \<open>The dimension arrows of a drawing\<close>

lemma space_labels_simps:
  "space_labels [] = []"
  "space_labels (e # es) = space_label e @ space_labels es"
  "space_labels (xs @ ys) = space_labels xs @ space_labels ys"
  by (simp_all add: space_labels_def)

lemma space_arrows_simps:
  "space_arrows [] = []"
  "space_arrows (e # es) = space_arrow e @ space_arrows es"
  "space_arrows (xs @ ys) = space_arrows xs @ space_arrows ys"
  by (simp_all add: space_arrows_def)

lemma dim_labels_simps:
  "dim_labels [] = []"
  "dim_labels (e # es) = dim_label e @ dim_labels es"
  "dim_labels (xs @ ys) = dim_labels xs @ dim_labels ys"
  by (simp_all add: dim_labels_def)

text \<open>What one call of dimArrow contributes.\<close>

lemma space_labels_dimArrow:
  "space_labels (dimArrow x1 y1 x2 y2 l tp os) =
     (if tp = ''space'' \<and> \<not> Math_hypot (x2 - x1) (y2 - y1) < 1 then [l] else [])"
  by (simp add: dimArrow_def Let_def space_labels_simps svgLine_def)

lemma space_arrows_dimArrow:
  "space_arrows (dimArrow x1 y1 x2 y2 l tp os) =
     (if tp = ''space'' \<and> \<not> Math_hypot (x2 - x1) (y2 - y1) < 1 then [(x1, y1, x2, y2)] else [])"
  by (simp add: dimArrow_def Let_def space_arrows_simps svgLine_def)

lemma dim_labels_dimArrow:
  "dim_labels (dimArrow x1 y1 x2 y2 l tp os) =
     (if Math_hypot (x2 - x1) (y2 - y1) < 1 then [] else [l])"
  by (simp add: dimArrow_def Let_def dim_labels_simps svgLine_def)

text \<open>The elements that are not dimension arrows.\<close>

lemma gridV_plain:
  "space_labels (render_gridV sh s S u) = [] \<and> space_arrows (render_gridV sh s S u) = [] \<and>
   dim_labels (render_gridV sh s S u) = []"
proof (induction sh s S u rule: render_gridV.induct)
  case (1 sh s S u)
  then show ?case
    by (subst (1 2 3) render_gridV.simps)
       (simp add: Let_def space_labels_simps space_arrows_simps dim_labels_simps svgLine_def)
qed

lemma gridH_plain:
  "space_labels (render_gridH sh s S u) = [] \<and> space_arrows (render_gridH sh s S u) = [] \<and>
   dim_labels (render_gridH sh s S u) = []"
proof (induction sh s S u rule: render_gridH.induct)
  case (1 sh s S u)
  then show ?case
    by (subst (1 2 3) render_gridH.simps)
       (simp add: Let_def space_labels_simps space_arrows_simps dim_labels_simps svgLine_def)
qed

lemma boxes_plain:
  "space_labels (render_boxes sh s S) = [] \<and> space_arrows (render_boxes sh s S) = [] \<and>
   dim_labels (render_boxes sh s S) = []"
  by (simp add: render_boxes_def space_labels_simps space_arrows_simps dim_labels_simps)

lemma view_labels_plain:
  "space_labels (render_view_labels sh s S) = [] \<and>
   space_arrows (render_view_labels sh s S) = [] \<and>
   dim_labels (render_view_labels sh s S) = []"
  by (simp add: render_view_labels_def view_label_def space_labels_simps space_arrows_simps
      dim_labels_simps)

lemma shape_arrows_not_space:
  "space_labels (render_shape_arrows f sh s S) = [] \<and>
   space_arrows (render_shape_arrows f sh s S) = []"
  by (simp add: render_shape_arrows_def Let_def space_labels_simps space_arrows_simps
      space_labels_dimArrow space_arrows_dimArrow extDot_def)

text \<open>
  A guarded call \<^verbatim>\<open>if (p > 1) dimArrow(...)\<close> along a horizontal or a vertical edge whose
  two ends are \<open>p\<close> apart: the arrow is drawn exactly when the guard holds.
\<close>

lemma guarded_h:
  assumes "x2 - x1 = p"
  shows "space_labels (if 1 < p then dimArrow x1 y x2 y l ''space'' os else []) =
           (if 1 < p then [l] else [])"
    and "space_arrows (if 1 < p then dimArrow x1 y x2 y l ''space'' os else []) =
           (if 1 < p then [(x1, y, x2, y)] else [])"
  using assms
  by (simp_all add: space_labels_dimArrow space_arrows_dimArrow Math_hypot_0_right
      space_labels_simps space_arrows_simps)

lemma guarded_v:
  assumes "y2 - y1 = p"
  shows "space_labels (if 1 < p then dimArrow x y1 x y2 l ''space'' os else []) =
           (if 1 < p then [l] else [])"
    and "space_arrows (if 1 < p then dimArrow x y1 x y2 l ''space'' os else []) =
           (if 1 < p then [(x, y1, x, y2)] else [])"
  using assms
  by (simp_all add: space_labels_dimArrow space_arrows_dimArrow Math_hypot_0_left
      space_labels_simps space_arrows_simps)

text \<open>The distance between the two ends of each of the twelve spacing arrows.\<close>

lemma gap_ends:
  "tlX s S - daX = pH0 s S"
  "trX sh s S - (tlX s S + tlW sh S) = pH1 s S"
  "daX + daW sh s S - (trX sh s S + trW sh S) = pH0 s S"
  "blX s S - daX = pH0 s S"
  "brX sh s S - (blX s S + blW sh S) = pH1 s S"
  "daX + daW sh s S - (brX sh s S + brW sh S) = pH0 s S"
  "tlY s S - daY = pV0 s S"
  "blY sh s S - (tlY s S + tlH sh S) = pV1 s S"
  "daY + daH sh s S - (blY sh s S + blH sh S) = pV0 s S"
  "trY s S - daY = pV0 s S"
  "brY sh s S - (trY s S + trH sh S) = pV1 s S"
  "daY + daH sh s S - (brY sh s S + brH sh S) = pV0 s S"
  by (simp_all add: geom_defs algebra_simps)

lemma space_labels_spacing_arrows:
  "space_labels (render_spacing_arrows f sh s S) =
     (if 1 < pH0 s S then [f (h0 s)] else []) @ (if 1 < pH1 s S then [f (h1 s)] else []) @
     (if 1 < pH0 s S then [f (h0 s)] else []) @
     (if 1 < pH0 s S then [f (h0 s)] else []) @ (if 1 < pH1 s S then [f (h1 s)] else []) @
     (if 1 < pH0 s S then [f (h0 s)] else []) @
     (if 1 < pV0 s S then [f (v0 s)] else []) @ (if 1 < pV1 s S then [f (v1 s)] else []) @
     (if 1 < pV0 s S then [f (v0 s)] else []) @
     (if 1 < pV0 s S then [f (v0 s)] else []) @ (if 1 < pV1 s S then [f (v1 s)] else []) @
     (if 1 < pV0 s S then [f (v0 s)] else [])"
  unfolding render_spacing_arrows_def Let_def space_labels_simps(3)
  by (simp only: guarded_h(1) [OF gap_ends(1)] guarded_h(1) [OF gap_ends(2)]
      guarded_h(1) [OF gap_ends(3)] guarded_h(1) [OF gap_ends(4)] guarded_h(1) [OF gap_ends(5)]
      guarded_h(1) [OF gap_ends(6)] guarded_v(1) [OF gap_ends(7)] guarded_v(1) [OF gap_ends(8)]
      guarded_v(1) [OF gap_ends(9)] guarded_v(1) [OF gap_ends(10)] guarded_v(1) [OF gap_ends(11)]
      guarded_v(1) [OF gap_ends(12)])

lemma space_arrows_spacing_arrows:
  "space_arrows (render_spacing_arrows f sh s S) =
     (if 1 < pH0 s S then [(daX, tlY s S, tlX s S, tlY s S)] else []) @
     (if 1 < pH1 s S then [(tlX s S + tlW sh S, tlY s S, trX sh s S, tlY s S)] else []) @
     (if 1 < pH0 s S then [(trX sh s S + trW sh S, tlY s S, daX + daW sh s S, tlY s S)] else []) @
     (if 1 < pH0 s S
      then [(daX, blY sh s S + blH sh S, blX s S, blY sh s S + blH sh S)] else []) @
     (if 1 < pH1 s S
      then [(blX s S + blW sh S, blY sh s S + blH sh S, brX sh s S, blY sh s S + blH sh S)]
      else []) @
     (if 1 < pH0 s S
      then [(brX sh s S + brW sh S, blY sh s S + blH sh S, daX + daW sh s S,
             blY sh s S + blH sh S)] else []) @
     (if 1 < pV0 s S then [(tlX s S, daY, tlX s S, tlY s S)] else []) @
     (if 1 < pV1 s S then [(tlX s S, tlY s S + tlH sh S, tlX s S, blY sh s S)] else []) @
     (if 1 < pV0 s S then [(tlX s S, blY sh s S + blH sh S, tlX s S, daY + daH sh s S)] else []) @
     (if 1 < pV0 s S then [(trX sh s S + trW sh S, daY, trX sh s S + trW sh S, trY s S)] else []) @
     (if 1 < pV1 s S
      then [(trX sh s S + trW sh S, trY s S + trH sh S, trX sh s S + trW sh S, brY sh s S)]
      else []) @
     (if 1 < pV0 s S
      then [(trX sh s S + trW sh S, brY sh s S + brH sh S, trX sh s S + trW sh S,
             daY + daH sh s S)] else [])"
  unfolding render_spacing_arrows_def Let_def space_arrows_simps(3)
  by (simp only: guarded_h(2) [OF gap_ends(1)] guarded_h(2) [OF gap_ends(2)]
      guarded_h(2) [OF gap_ends(3)] guarded_h(2) [OF gap_ends(4)] guarded_h(2) [OF gap_ends(5)]
      guarded_h(2) [OF gap_ends(6)] guarded_v(2) [OF gap_ends(7)] guarded_v(2) [OF gap_ends(8)]
      guarded_v(2) [OF gap_ends(9)] guarded_v(2) [OF gap_ends(10)] guarded_v(2) [OF gap_ends(11)]
      guarded_v(2) [OF gap_ends(12)])

lemma render_content_space:
  "space_labels (render_content tf sh s c S) =
     space_labels (render_spacing_arrows (fmt tf c) sh s S)"
  "space_arrows (render_content tf sh s c S) =
     space_arrows (render_spacing_arrows (fmt tf c) sh s S)"
  by (simp_all add: render_content_def space_labels_simps space_arrows_simps gridV_plain
      gridH_plain boxes_plain view_labels_plain shape_arrows_not_space)

text \<open>
  C7. In the drawing that \<open>render\<close> emits at its scale \<open>S\<close>, the spacing (red) arrows are
  exactly those of the spacing values whose scaled extent exceeds 1 px, in the order of
  the twelve calls (h0, h1, h0 along the top row, the same along the bottom row, then
  v0, v1, v0 along the left column and the same along the right column): an arrow whose
  spacing value times \<open>S\<close> is at most 1 is not in the list, neither its line nor its
  label, and \<open>render\<close> still returns the drawing. The labels first, then the arrow lines
  as (x1, y1, x2, y2).
\<close>

theorem spacing_arrows_above_1px:
  "\<exists>S d'. render toFixed sh s calculated d = Some d' \<and> render_S sh s d = Fin S \<and>
     space_labels (drawing_content d') =
       (let a = (if 1 < h0 s * S then [fmt toFixed calculated (h0 s)] else []);
            b = (if 1 < h1 s * S then [fmt toFixed calculated (h1 s)] else []);
            c = (if 1 < v0 s * S then [fmt toFixed calculated (v0 s)] else []);
            e = (if 1 < v1 s * S then [fmt toFixed calculated (v1 s)] else [])
        in a @ b @ a @ a @ b @ a @ c @ e @ c @ c @ e @ c) \<and>
     space_arrows (drawing_content d') =
       (if 1 < h0 s * S then [(daX, tlY s S, tlX s S, tlY s S)] else []) @
       (if 1 < h1 s * S then [(tlX s S + tlW sh S, tlY s S, trX sh s S, tlY s S)] else []) @
       (if 1 < h0 s * S
        then [(trX sh s S + trW sh S, tlY s S, daX + daW sh s S, tlY s S)] else []) @
       (if 1 < h0 s * S
        then [(daX, blY sh s S + blH sh S, blX s S, blY sh s S + blH sh S)] else []) @
       (if 1 < h1 s * S
        then [(blX s S + blW sh S, blY sh s S + blH sh S, brX sh s S, blY sh s S + blH sh S)]
        else []) @
       (if 1 < h0 s * S
        then [(brX sh s S + brW sh S, blY sh s S + blH sh S, daX + daW sh s S,
               blY sh s S + blH sh S)] else []) @
       (if 1 < v0 s * S then [(tlX s S, daY, tlX s S, tlY s S)] else []) @
       (if 1 < v1 s * S then [(tlX s S, tlY s S + tlH sh S, tlX s S, blY sh s S)] else []) @
       (if 1 < v0 s * S
        then [(tlX s S, blY sh s S + blH sh S, tlX s S, daY + daH sh s S)] else []) @
       (if 1 < v0 s * S
        then [(trX sh s S + trW sh S, daY, trX sh s S + trW sh S, trY s S)] else []) @
       (if 1 < v1 s * S
        then [(trX sh s S + trW sh S, trY s S + trH sh S, trX sh s S + trW sh S, brY sh s S)]
        else []) @
       (if 1 < v0 s * S
        then [(trX sh s S + trW sh S, brY sh s S + brH sh S, trX sh s S + trW sh S,
               daY + daH sh s S)] else [])"
proof -
  from render_Some [of sh s d toFixed calculated] obtain S d' where
    r: "render toFixed sh s calculated d = Some d'" "render_S sh s d = Fin S"
       "drawing_content d' = render_content toFixed sh s calculated S"
    by blast
  have l: "space_labels (drawing_content d') =
       (let a = (if 1 < h0 s * S then [fmt toFixed calculated (h0 s)] else []);
            b = (if 1 < h1 s * S then [fmt toFixed calculated (h1 s)] else []);
            c = (if 1 < v0 s * S then [fmt toFixed calculated (v0 s)] else []);
            e = (if 1 < v1 s * S then [fmt toFixed calculated (v1 s)] else [])
        in a @ b @ a @ a @ b @ a @ c @ e @ c @ c @ e @ c)"
    unfolding r(3) render_content_space(1) space_labels_spacing_arrows Let_def
    by (simp only: pH0_def pH1_def pV0_def pV1_def)
  have a: "space_arrows (drawing_content d') =
       (if 1 < h0 s * S then [(daX, tlY s S, tlX s S, tlY s S)] else []) @
       (if 1 < h1 s * S then [(tlX s S + tlW sh S, tlY s S, trX sh s S, tlY s S)] else []) @
       (if 1 < h0 s * S
        then [(trX sh s S + trW sh S, tlY s S, daX + daW sh s S, tlY s S)] else []) @
       (if 1 < h0 s * S
        then [(daX, blY sh s S + blH sh S, blX s S, blY sh s S + blH sh S)] else []) @
       (if 1 < h1 s * S
        then [(blX s S + blW sh S, blY sh s S + blH sh S, brX sh s S, blY sh s S + blH sh S)]
        else []) @
       (if 1 < h0 s * S
        then [(brX sh s S + brW sh S, blY sh s S + blH sh S, daX + daW sh s S,
               blY sh s S + blH sh S)] else []) @
       (if 1 < v0 s * S then [(tlX s S, daY, tlX s S, tlY s S)] else []) @
       (if 1 < v1 s * S then [(tlX s S, tlY s S + tlH sh S, tlX s S, blY sh s S)] else []) @
       (if 1 < v0 s * S
        then [(tlX s S, blY sh s S + blH sh S, tlX s S, daY + daH sh s S)] else []) @
       (if 1 < v0 s * S
        then [(trX sh s S + trW sh S, daY, trX sh s S + trW sh S, trY s S)] else []) @
       (if 1 < v1 s * S
        then [(trX sh s S + trW sh S, trY s S + trH sh S, trX sh s S + trW sh S, brY sh s S)]
        else []) @
       (if 1 < v0 s * S
        then [(trX sh s S + trW sh S, brY sh s S + brH sh S, trX sh s S + trW sh S,
               daY + daH sh s S)] else [])"
    unfolding r(3) render_content_space(2) space_arrows_spacing_arrows
    by (simp only: pH0_def pH1_def pV0_def pV1_def)
  from r(1,2) l a show ?thesis by blast
qed

text \<open>
  The default solid in a 16 by 10 area has the spacing v0 = 0.5, v1 = 0, h0 = 1.5, h1 = 2;
  at the scale 40 the two arrows of the vertical gap are left out and the other ten are
  drawn.
\<close>

theorem spacing_arrows_above_1px_witness:
  "\<forall>toFixed. \<exists>d'.
     render toFixed shape0 \<lparr> v0 = 1 / 2, v1 = 0, h0 = 3 / 2, h1 = 2 \<rparr> True page0 = Some d' \<and>
     render_S shape0 \<lparr> v0 = 1 / 2, v1 = 0, h0 = 3 / 2, h1 = 2 \<rparr> page0 = Fin 40 \<and>
     space_labels (drawing_content d') =
       [toFixed 1 (3 / 2), toFixed 1 2, toFixed 1 (3 / 2),
        toFixed 1 (3 / 2), toFixed 1 2, toFixed 1 (3 / 2),
        toFixed 1 (1 / 2), toFixed 1 (1 / 2), toFixed 1 (1 / 2), toFixed 1 (1 / 2)] \<and>
     length (space_arrows (drawing_content d')) = 10"
proof
  fix toFixed :: "nat \<Rightarrow> real \<Rightarrow> string"
  let ?s = "\<lparr> v0 = 1 / 2, v1 = 0, h0 = 3 / 2, h1 = 2 \<rparr>"
  have S: "render_S shape0 ?s page0 = Fin 40"
    by (simp add: render_S_def scaleH_def scaleV_def js_div_def totalUnitsH_def totalUnitsV_def
        fW_def fH_def dW_def dH_def shape0_def availW_def availH_def page0_def
        PAD_L_def PAD_R_def PAD_T_def PAD_B_def)
  from spacing_arrows_above_1px [of toFixed shape0 ?s True page0] S
  show "\<exists>d'. render toFixed shape0 ?s True page0 = Some d' \<and>
     render_S shape0 ?s page0 = Fin 40 \<and>
     space_labels (drawing_content d') =
       [toFixed 1 (3 / 2), toFixed 1 2, toFixed 1 (3 / 2),
        toFixed 1 (3 / 2), toFixed 1 2, toFixed 1 (3 / 2),
        toFixed 1 (1 / 2), toFixed 1 (1 / 2), toFixed 1 (1 / 2), toFixed 1 (1 / 2)] \<and>
     length (space_arrows (drawing_content d')) = 10"
    by (auto simp: Let_def fmt_def)
qed

text \<open>With \<open>calculated\<close> false every dimension label is the placeholder.\<close>

lemma placeholder_shape_arrows:
  "list_all (\<lambda>l. l = ''?'') (dim_labels (render_shape_arrows (fmt tf False) sh s S))"
  by (simp add: render_shape_arrows_def Let_def dim_labels_simps dim_labels_dimArrow
      extDot_def fmt_def)

lemma dim_labels_guarded:
  "list_all P (dim_labels (if c then dimArrow x1 y1 x2 y2 l tp os else [])) =
     (c \<and> \<not> Math_hypot (x2 - x1) (y2 - y1) < 1 \<longrightarrow> P l)"
  by (simp add: dim_labels_dimArrow dim_labels_simps)

lemma placeholder_spacing_arrows:
  "list_all (\<lambda>l. l = ''?'') (dim_labels (render_spacing_arrows (fmt tf False) sh s S))"
  unfolding render_spacing_arrows_def Let_def dim_labels_simps(3) list_all_append
    dim_labels_guarded
  by (simp add: fmt_def)

lemma placeholder_content:
  "list_all (\<lambda>l. l = ''?'') (dim_labels (render_content tf sh s False S))"
  by (simp add: render_content_def dim_labels_simps gridV_plain gridH_plain boxes_plain
      view_labels_plain placeholder_shape_arrows placeholder_spacing_arrows)

lemma space_labels_subset: "set (space_labels es) \<subseteq> set (dim_labels es)"
proof (induction es)
  case Nil
  show ?case by (simp add: space_labels_simps)
next
  case (Cons e es)
  then show ?case
    by (cases e) (auto simp: space_labels_simps dim_labels_simps)
qed

text \<open>With the fallback spacing every spacing arrow is longer than 1 px at any scale from 6 on.\<close>

lemma fallback_labels:
  assumes "6 \<le> S"
  shows "space_labels (render_content tf sh \<lparr> v0 = 2, v1 = 3, h0 = 1.2, h1 = 2.4 \<rparr> False S) =
    [''?'', ''?'', ''?'', ''?'', ''?'', ''?'', ''?'', ''?'', ''?'', ''?'', ''?'', ''?'']"
  using assms
  by (simp add: render_content_space space_labels_spacing_arrows pH0_def pH1_def pV0_def pV1_def
      fmt_def)

text \<open>
  C10, as the code has it: the placeholder is the one-character string \<^verbatim>\<open>?\<close> (the claim
  says \<^verbatim>\<open>unknown\<close>). For every render with \<open>calculated\<close> false, every dimension label
  of the drawing is \<^verbatim>\<open>?\<close>. The initial render, and the resize listener while the results
  section is still hidden (its \<^verbatim>\<open>display\<close> is \<^verbatim>\<open>none\<close>, as before any calculate action),
  are such renders with the fixed spacing v0 = 2, v1 = 3, h0 = 1.2, h1 = 2.4: all twelve
  spacing arrows are drawn and labelled \<^verbatim>\<open>?\<close>, the top-left box is at (1.2, 2) times \<open>S\<close>
  from the origin and the bottom-right box at (1.2 + W + 2.4, 2 + D + 3) times \<open>S\<close>.
\<close>

theorem uncalculated_render:
  "(\<forall>d'. render toFixed sh s False d = Some d' \<longrightarrow>
      (\<forall>l \<in> set (dim_labels (drawing_content d')). l = ''?'')) \<and>
   init toFixed d =
     render toFixed (shape_of (readInputs d)) \<lparr> v0 = 2, v1 = 3, h0 = 1.2, h1 = 2.4 \<rparr> False d \<and>
   (results_display d = ''none'' \<longrightarrow>
      on_resize toFixed d =
        render toFixed (shape_of (readInputs d)) \<lparr> v0 = 2, v1 = 3, h0 = 1.2, h1 = 2.4 \<rparr> False d) \<and>
   (\<exists>S d'. init toFixed d = Some d' \<and>
      render_S (shape_of (readInputs d)) \<lparr> v0 = 2, v1 = 3, h0 = 1.2, h1 = 2.4 \<rparr> d = Fin S \<and>
      space_labels (drawing_content d') =
        [''?'', ''?'', ''?'', ''?'', ''?'', ''?'', ''?'', ''?'', ''?'', ''?'', ''?'', ''?''] \<and>
      Rect (daX + 1.2 * S) (daY + 2 * S) (W (readInputs d) * S) (D (readInputs d) * S) ''box''
        \<in> set (drawing_content d') \<and>
      Rect (daX + 1.2 * S + W (readInputs d) * S + 2.4 * S)
           (daY + 2 * S + D (readInputs d) * S + 3 * S)
           (D (readInputs d) * S) (H' (readInputs d) * S) ''box''
        \<in> set (drawing_content d'))"
proof (intro conjI allI impI)
  fix d'
  assume "render toFixed sh s False d = Some d'"
  then obtain S where "drawing_content d' = render_content toFixed sh s False S"
    by (auto simp: render_def split: jsnum.splits)
  then show "\<forall>l \<in> set (dim_labels (drawing_content d')). l = ''?''"
    using placeholder_content [of toFixed sh s S] by (simp add: list_all_iff)
next
  show "init toFixed d =
     render toFixed (shape_of (readInputs d)) \<lparr> v0 = 2, v1 = 3, h0 = 1.2, h1 = 2.4 \<rparr> False d"
    by (simp add: init_def)
next
  assume "results_display d = ''none''"
  then show "on_resize toFixed d =
        render toFixed (shape_of (readInputs d)) \<lparr> v0 = 2, v1 = 3, h0 = 1.2, h1 = 2.4 \<rparr> False d"
    by (simp add: on_resize_def)
next
  let ?sh = "shape_of (readInputs d)"
  let ?s = "\<lparr> v0 = 2, v1 = 3, h0 = 1.2, h1 = 2.4 \<rparr>"
  from render_Some [of ?sh ?s d toFixed False] obtain S d' where
    r: "6 \<le> S" "render_S ?sh ?s d = Fin S" "render toFixed ?sh ?s False d = Some d'"
       "drawing_content d' = render_content toFixed ?sh ?s False S"
    by blast
  have i: "init toFixed d = Some d'"
    using r(3) by (simp add: init_def)
  have l: "space_labels (drawing_content d') =
        [''?'', ''?'', ''?'', ''?'', ''?'', ''?'', ''?'', ''?'', ''?'', ''?'', ''?'', ''?'']"
    unfolding r(4) using r(1) by (rule fallback_labels)
  have b: "set (render_boxes ?sh ?s S) \<subseteq> set (drawing_content d')"
    unfolding r(4) render_content_def by auto
  have b1: "Rect (daX + 1.2 * S) (daY + 2 * S) (W (readInputs d) * S) (D (readInputs d) * S)
      ''box'' \<in> set (render_boxes ?sh ?s S)"
    by (simp add: render_boxes_def geom_defs readInputs_def Let_def)
  have b2: "Rect (daX + 1.2 * S + W (readInputs d) * S + 2.4 * S)
           (daY + 2 * S + D (readInputs d) * S + 3 * S)
           (D (readInputs d) * S) (H' (readInputs d) * S) ''box''
        \<in> set (render_boxes ?sh ?s S)"
    by (simp add: render_boxes_def geom_defs readInputs_def Let_def)
  from i r(2) l b b1 b2
  show "\<exists>S d'. init toFixed d = Some d' \<and> render_S ?sh ?s d = Fin S \<and>
      space_labels (drawing_content d') =
        [''?'', ''?'', ''?'', ''?'', ''?'', ''?'', ''?'', ''?'', ''?'', ''?'', ''?'', ''?''] \<and>
      Rect (daX + 1.2 * S) (daY + 2 * S) (W (readInputs d) * S) (D (readInputs d) * S) ''box''
        \<in> set (drawing_content d') \<and>
      Rect (daX + 1.2 * S + W (readInputs d) * S + 2.4 * S)
           (daY + 2 * S + D (readInputs d) * S + 3 * S)
           (D (readInputs d) * S) (H' (readInputs d) * S) ''box''
        \<in> set (drawing_content d')"
    by blast
qed

text \<open>
  The initial render of the page with five empty fields: the twelve spacing labels are
  \<^verbatim>\<open>?\<close>, so it is not the case that every dimension label is \<^verbatim>\<open>unknown\<close>.
\<close>

theorem placeholder_counterexample:
  "\<forall>toFixed. \<exists>d'. init toFixed page0 = Some d' \<and>
     space_labels (drawing_content d') =
       [''?'', ''?'', ''?'', ''?'', ''?'', ''?'', ''?'', ''?'', ''?'', ''?'', ''?'', ''?''] \<and>
     \<not> (\<forall>l \<in> set (dim_labels (drawing_content d')). l = ''unknown'')"
proof
  fix toFixed :: "nat \<Rightarrow> real \<Rightarrow> string"
  let ?sh = "shape_of (readInputs page0)"
  let ?s = "\<lparr> v0 = 2, v1 = 3, h0 = 1.2, h1 = 2.4 \<rparr>"
  from render_Some [of ?sh ?s page0 toFixed False] obtain S d' where
    r: "6 \<le> S" "render toFixed ?sh ?s False page0 = Some d'"
       "drawing_content d' = render_content toFixed ?sh ?s False S"
    by blast
  have i: "init toFixed page0 = Some d'"
    using r(2) by (simp add: init_def)
  have l: "space_labels (drawing_content d') =
        [''?'', ''?'', ''?'', ''?'', ''?'', ''?'', ''?'', ''?'', ''?'', ''?'', ''?'', ''?'']"
    unfolding r(3) using r(1) by (rule fallback_labels)
  have "''?'' \<in> set (space_labels (drawing_content d'))"
    unfolding l by simp
  then have "''?'' \<in> set (dim_labels (drawing_content d'))"
    using space_labels_subset [of "drawing_content d'"] by blast
  then have "\<not> (\<forall>l \<in> set (dim_labels (drawing_content d')). l = ''unknown'')"
    by auto
  with i l show "\<exists>d'. init toFixed page0 = Some d' \<and>
     space_labels (drawing_content d') =
       [''?'', ''?'', ''?'', ''?'', ''?'', ''?'', ''?'', ''?'', ''?'', ''?'', ''?'', ''?''] \<and>
     \<not> (\<forall>l \<in> set (dim_labels (drawing_content d')). l = ''unknown'')"
    by blast
qed

text \<open>The page with five empty fields and the results section hidden.\<close>

theorem uncalculated_render_witness:
  "results_display page0 = ''none'' \<and>
   (\<forall>toFixed. \<exists>d'. on_resize toFixed page0 = Some d' \<and> init toFixed page0 = Some d' \<and>
      (\<forall>l \<in> set (dim_labels (drawing_content d')). l = ''?'') \<and>
      space_labels (drawing_content d') =
        [''?'', ''?'', ''?'', ''?'', ''?'', ''?'', ''?'', ''?'', ''?'', ''?'', ''?'', ''?''])"
proof (intro conjI allI)
  show p: "results_display page0 = ''none''" by (simp add: page0_def)
  fix toFixed :: "nat \<Rightarrow> real \<Rightarrow> string"
  let ?sh = "shape_of (readInputs page0)"
  let ?s = "\<lparr> v0 = 2, v1 = 3, h0 = 1.2, h1 = 2.4 \<rparr>"
  note u = uncalculated_render [of toFixed ?sh ?s page0]
  from u obtain d' where
    i: "init toFixed page0 = Some d'" and
    l: "space_labels (drawing_content d') =
        [''?'', ''?'', ''?'', ''?'', ''?'', ''?'', ''?'', ''?'', ''?'', ''?'', ''?'', ''?'']"
    by blast
  from u p have o: "on_resize toFixed page0 = init toFixed page0"
    by simp
  from u have "init toFixed page0 = render toFixed ?sh ?s False page0"
    by blast
  with i have "render toFixed ?sh ?s False page0 = Some d'"
    by simp
  with u have a: "\<forall>l \<in> set (dim_labels (drawing_content d')). l = ''?''"
    by blast
  from i l o a show "\<exists>d'. on_resize toFixed page0 = Some d' \<and> init toFixed page0 = Some d' \<and>
      (\<forall>l \<in> set (dim_labels (drawing_content d')). l = ''?'') \<and>
      space_labels (drawing_content d') =
        [''?'', ''?'', ''?'', ''?'', ''?'', ''?'', ''?'', ''?'', ''?'', ''?'', ''?'', ''?'']"
    by auto
qed

end
